theory Spec2Isabelle
  imports Complex_Main
begin

section \<open>JavaScript values\<close>

text \<open>
  A JavaScript string is a sequence of UTF-16 code units; a code unit is modelled by its
  number. The texts that the program itself contains (property names, notices, header
  names) are ASCII literals, embedded by \<open>lit\<close>.
\<close>

type_synonym ustring = "nat list"

definition lit :: "string \<Rightarrow> ustring" where
  "lit s = map of_char s"

text \<open>
  The dashboard (\<^verbatim>\<open>src/App.js\<close>) works on values that come out of \<^verbatim>\<open>JSON.parse\<close>,
  \<^verbatim>\<open>response.json()\<close> and form controls. They are modelled by one datatype. A finite
  number is a \<^typ>\<open>real\<close> (the program only compares numbers, and the comparison of two
  finite doubles is the comparison of the reals they denote); \<^verbatim>\<open>NaN\<close> is a constructor
  of its own; the infinities and the sign of zero are left out. An object is the list of
  its own properties, read with \<^const>\<open>map_of\<close>.
\<close>

datatype jsval =
    JUndefined
  | JNull
  | JBool bool
  | JNaN
  | JNum real
  | JStr ustring
  | JArr "jsval list"
  | JObj "(ustring \<times> jsval) list"

text \<open>\<^verbatim>\<open>Boolean(v)\<close>, the test of \<^verbatim>\<open>if (v)\<close>, \<^verbatim>\<open>!v\<close> and \<^verbatim>\<open>v || w\<close>.\<close>

fun js_truthy :: "jsval \<Rightarrow> bool" where
  "js_truthy JUndefined = False"
| "js_truthy JNull = False"
| "js_truthy (JBool b) = b"
| "js_truthy JNaN = False"
| "js_truthy (JNum r) = (r \<noteq> 0)"
| "js_truthy (JStr s) = (s \<noteq> [])"
| "js_truthy (JArr xs) = True"
| "js_truthy (JObj kvs) = True"

text \<open>\<^verbatim>\<open>a || b\<close> where evaluating \<^verbatim>\<open>b\<close> has no effect.\<close>

definition js_or :: "jsval \<Rightarrow> jsval \<Rightarrow> jsval" where
  "js_or a b = (if js_truthy a then a else b)"

definition js_nullish :: "jsval \<Rightarrow> bool" where
  "js_nullish v = (v = JUndefined \<or> v = JNull)"

fun is_primitive :: "jsval \<Rightarrow> bool" where
  "is_primitive (JArr xs) = False"
| "is_primitive (JObj kvs) = False"
| "is_primitive v = True"

text \<open>
  \<^verbatim>\<open>v.k\<close> on a receiver that is neither \<^verbatim>\<open>null\<close> nor \<^verbatim>\<open>undefined\<close>, for a property
  name \<open>k\<close> written in the program. The names the program reads (\<^verbatim>\<open>token\<close>, \<^verbatim>\<open>user\<close>,
  \<^verbatim>\<open>access_token\<close>, \<^verbatim>\<open>detail\<close>, \<^verbatim>\<open>message\<close>, \<^verbatim>\<open>full_name\<close>, \<^verbatim>\<open>name\<close>,
  \<^verbatim>\<open>generic_name\<close>, \<^verbatim>\<open>category\<close>, \<^verbatim>\<open>quantity\<close>, \<^verbatim>\<open>reorder_level\<close>) are not properties
  of strings, numbers, booleans or arrays, so only an object can answer.
\<close>

fun js_get :: "jsval \<Rightarrow> string \<Rightarrow> jsval" where
  "js_get (JObj kvs) k = (case map_of kvs (lit k) of Some v \<Rightarrow> v | None \<Rightarrow> JUndefined)"
| "js_get v k = JUndefined"

text \<open>\<^verbatim>\<open>v?.k\<close>\<close>

definition js_opt_get :: "jsval \<Rightarrow> string \<Rightarrow> jsval" where
  "js_opt_get v k = (if js_nullish v then JUndefined else js_get v k)"

subsection \<open>Exceptions and the runtime\<close>

datatype exn =
    Error ustring
  | TypeError ustring
  | SyntaxError ustring
  | RangeError ustring

fun message :: "exn \<Rightarrow> ustring" where
  "message (Error m) = m"
| "message (TypeError m) = m"
| "message (SyntaxError m) = m"
| "message (RangeError m) = m"

text \<open>
  The faults the engine itself raises, each a \<^verbatim>\<open>TypeError\<close> but for the last, a
  \<^verbatim>\<open>RangeError\<close>; the text of their message is the engine's.
\<close>

datatype fault =
    ReadOfNullish jsval string
  | NotAFunction string
  | NotPrimitive
  | InvalidTime

text \<open>
  What the program takes from its platform and does not define: the JSON codec, the
  conversions between numbers and strings, \<^verbatim>\<open>String.prototype.toLowerCase\<close> (which
  follows the Unicode case mappings and is not a map over code units), the engine's
  messages and the date library's \<^verbatim>\<open>dayjs(d).toISOString()\<close> (which is \<open>None\<close> when
  it throws on an invalid date). \<^verbatim>\<open>JSON.parse\<close> returns the message of its
  \<^verbatim>\<open>SyntaxError\<close> on the left.
\<close>

record runtime =
  json_parse :: "ustring \<Rightarrow> ustring + jsval"
  json_stringify :: "jsval \<Rightarrow> ustring"
  number_to_string :: "real \<Rightarrow> ustring"
  string_to_number :: "ustring \<Rightarrow> real option"
  to_lower_case :: "ustring \<Rightarrow> ustring"
  fault_message :: "fault \<Rightarrow> ustring"
  to_iso_string :: "ustring \<Rightarrow> ustring option"

definition raise_fault :: "runtime \<Rightarrow> fault \<Rightarrow> exn + 'a" where
  "raise_fault rt f =
     (if f = InvalidTime then Inl (RangeError (fault_message rt f))
      else Inl (TypeError (fault_message rt f)))"

text \<open>Sequencing of two computations that may throw.\<close>

definition and_then :: "exn + 'a \<Rightarrow> ('a \<Rightarrow> exn + 'b) \<Rightarrow> exn + 'b" where
  "and_then r f = (case r of Inl e \<Rightarrow> Inl e | Inr x \<Rightarrow> f x)"

text \<open>\<^verbatim>\<open>v.k\<close> on any receiver: reading a property of \<^verbatim>\<open>null\<close> or \<^verbatim>\<open>undefined\<close> throws.\<close>

definition js_prop :: "runtime \<Rightarrow> jsval \<Rightarrow> string \<Rightarrow> exn + jsval" where
  "js_prop rt v k =
     (if js_nullish v then raise_fault rt (ReadOfNullish v k) else Inr (js_get v k))"

text \<open>
  \<^verbatim>\<open>String(v)\<close>, as in a template literal and in \<^verbatim>\<open>new Error(v)\<close>. An object that came
  out of \<^verbatim>\<open>JSON.parse\<close> converts through \<^verbatim>\<open>Object.prototype.toString\<close>, unless it has
  an own property \<^verbatim>\<open>toString\<close>: that value is not callable, \<^verbatim>\<open>valueOf\<close> does not
  give a primitive either, and the conversion throws a \<^verbatim>\<open>TypeError\<close>. An array joins
  the strings of its elements with commas, \<^verbatim>\<open>null\<close> and \<^verbatim>\<open>undefined\<close> elements
  giving the empty string, and throws when an element does.
\<close>

fun join_comma :: "ustring list \<Rightarrow> ustring" where
  "join_comma [] = []"
| "join_comma [s] = s"
| "join_comma (s # t # ss) = s @ lit '','' @ join_comma (t # ss)"

fun js_to_string :: "runtime \<Rightarrow> jsval \<Rightarrow> exn + ustring"
  and js_strings :: "runtime \<Rightarrow> jsval list \<Rightarrow> exn + ustring list" where
  "js_to_string rt JUndefined = Inr (lit ''undefined'')"
| "js_to_string rt JNull = Inr (lit ''null'')"
| "js_to_string rt (JBool b) = Inr (if b then lit ''true'' else lit ''false'')"
| "js_to_string rt JNaN = Inr (lit ''NaN'')"
| "js_to_string rt (JNum r) = Inr (number_to_string rt r)"
| "js_to_string rt (JStr s) = Inr s"
| "js_to_string rt (JArr xs) =
     (case js_strings rt xs of Inl e \<Rightarrow> Inl e | Inr ss \<Rightarrow> Inr (join_comma ss))"
| "js_to_string rt (JObj kvs) =
     (if map_of kvs (lit ''toString'') = None then Inr (lit ''[object Object]'')
      else raise_fault rt NotPrimitive)"
| "js_strings rt [] = Inr []"
| "js_strings rt (x # xs) =
     (case (if x = JUndefined \<or> x = JNull then Inr [] else js_to_string rt x) of
        Inl e \<Rightarrow> Inl e
      | Inr s \<Rightarrow> (case js_strings rt xs of Inl e \<Rightarrow> Inl e | Inr ss \<Rightarrow> Inr (s # ss)))"

text \<open>\<^verbatim>\<open>throw new Error(v)\<close>: the conversion of \<open>v\<close> to the message may itself throw.\<close>

definition throw_Error :: "runtime \<Rightarrow> jsval \<Rightarrow> exn + 'a" where
  "throw_Error rt v = (case js_to_string rt v of Inl e \<Rightarrow> Inl e | Inr m \<Rightarrow> Inl (Error m))"

subsection \<open>Relational comparison\<close>

text \<open>
  \<^verbatim>\<open>a <= b\<close>: the left operand, then the right one, is made primitive (an array or
  object becomes its string, or throws); two strings are compared code unit by code
  unit; otherwise both are converted to numbers and the comparison is false as soon as
  one of them is \<^verbatim>\<open>NaN\<close>.
\<close>

fun js_to_primitive :: "runtime \<Rightarrow> jsval \<Rightarrow> exn + jsval" where
  "js_to_primitive rt (JArr xs) =
     (case js_to_string rt (JArr xs) of Inl e \<Rightarrow> Inl e | Inr s \<Rightarrow> Inr (JStr s))"
| "js_to_primitive rt (JObj kvs) =
     (case js_to_string rt (JObj kvs) of Inl e \<Rightarrow> Inl e | Inr s \<Rightarrow> Inr (JStr s))"
| "js_to_primitive rt v = Inr v"

text \<open>
  \<^verbatim>\<open>Number(v)\<close> of a primitive; \<open>None\<close> is \<^verbatim>\<open>NaN\<close>. The last equation is never
  reached: \<open>js_to_primitive\<close> returns no array and no object.
\<close>

fun js_to_number :: "runtime \<Rightarrow> jsval \<Rightarrow> real option" where
  "js_to_number rt JUndefined = None"
| "js_to_number rt JNull = Some 0"
| "js_to_number rt (JBool b) = Some (if b then 1 else 0)"
| "js_to_number rt JNaN = None"
| "js_to_number rt (JNum r) = Some r"
| "js_to_number rt (JStr s) = string_to_number rt s"
| "js_to_number rt v = None"

fun string_le :: "ustring \<Rightarrow> ustring \<Rightarrow> bool" where
  "string_le [] t = True"
| "string_le (a # s) [] = False"
| "string_le (a # s) (b # t) = (if a = b then string_le s t else a < b)"

definition primitive_le :: "runtime \<Rightarrow> jsval \<Rightarrow> jsval \<Rightarrow> bool" where
  "primitive_le rt pa pb =
     (case (pa, pb) of
        (JStr s, JStr t) \<Rightarrow> string_le s t
      | _ \<Rightarrow>
          (case (js_to_number rt pa, js_to_number rt pb) of
             (Some x, Some y) \<Rightarrow> x \<le> y
           | _ \<Rightarrow> False))"

definition js_le :: "runtime \<Rightarrow> jsval \<Rightarrow> jsval \<Rightarrow> exn + bool" where
  "js_le rt a b =
     and_then (js_to_primitive rt a) (\<lambda>pa.
     and_then (js_to_primitive rt b) (\<lambda>pb.
     Inr (primitive_le rt pa pb)))"

subsection \<open>String methods\<close>

text \<open>\<^verbatim>\<open>s.includes(q)\<close>: \<^verbatim>\<open>q\<close> occurs in \<^verbatim>\<open>s\<close> at some position.\<close>

fun str_includes :: "ustring \<Rightarrow> ustring \<Rightarrow> bool" where
  "str_includes [] q = (q = [])"
| "str_includes (c # s) q = (take (length q) (c # s) = q \<or> str_includes s q)"

text \<open>
  \<^verbatim>\<open>v.toLowerCase()\<close> on a value read from a record: only a string has the method;
  \<^verbatim>\<open>null\<close> and \<^verbatim>\<open>undefined\<close> have no properties at all.
\<close>

fun call_toLowerCase :: "runtime \<Rightarrow> jsval \<Rightarrow> exn + ustring" where
  "call_toLowerCase rt (JStr s) = Inr (to_lower_case rt s)"
| "call_toLowerCase rt JUndefined = raise_fault rt (ReadOfNullish JUndefined ''toLowerCase'')"
| "call_toLowerCase rt JNull = raise_fault rt (ReadOfNullish JNull ''toLowerCase'')"
| "call_toLowerCase rt v = raise_fault rt (NotAFunction ''toLowerCase'')"

section \<open>Derived views\<close>

subsection \<open>The medicine filter\<close>

text \<open>
  \<^verbatim>\<open>
  const filteredMedicines = medicines.filter((med) =>
    med.name.toLowerCase().includes(searchQuery.toLowerCase()) ||
    med.generic_name.toLowerCase().includes(searchQuery.toLowerCase()) ||
    med.category.toLowerCase().includes(searchQuery.toLowerCase())
  );
  \<close>
  One disjunct: \<^verbatim>\<open>med.k.toLowerCase().includes(searchQuery.toLowerCase())\<close>.
\<close>

definition field_includes :: "runtime \<Rightarrow> jsval \<Rightarrow> string \<Rightarrow> ustring \<Rightarrow> exn + bool" where
  "field_includes rt med k searchQuery =
     and_then (js_prop rt med k) (\<lambda>v.
     and_then (call_toLowerCase rt v) (\<lambda>s.
     Inr (str_includes s (to_lower_case rt searchQuery))))"

text \<open>\<^verbatim>\<open>a || b\<close> on booleans where \<^verbatim>\<open>b\<close> may throw: \<^verbatim>\<open>b\<close> is evaluated only when \<^verbatim>\<open>a\<close> is false.\<close>

definition or_else :: "exn + bool \<Rightarrow> exn + bool \<Rightarrow> exn + bool" where
  "or_else a b = (case a of Inl e \<Rightarrow> Inl e | Inr True \<Rightarrow> Inr True | Inr False \<Rightarrow> b)"

definition med_matches :: "runtime \<Rightarrow> ustring \<Rightarrow> jsval \<Rightarrow> exn + bool" where
  "med_matches rt searchQuery med =
     or_else (field_includes rt med ''name'' searchQuery)
       (or_else (field_includes rt med ''generic_name'' searchQuery)
          (field_includes rt med ''category'' searchQuery))"

text \<open>\<^verbatim>\<open>Array.prototype.filter\<close> with a callback that may throw: the first throw ends it.\<close>

fun array_filter :: "('a \<Rightarrow> exn + bool) \<Rightarrow> 'a list \<Rightarrow> exn + 'a list" where
  "array_filter p [] = Inr []"
| "array_filter p (x # xs) =
     (case p x of
        Inl e \<Rightarrow> Inl e
      | Inr b \<Rightarrow>
          (case array_filter p xs of
             Inl e \<Rightarrow> Inl e
           | Inr ys \<Rightarrow> Inr (if b then x # ys else ys)))"

fun filteredMedicines :: "runtime \<Rightarrow> jsval \<Rightarrow> ustring \<Rightarrow> exn + jsval list" where
  "filteredMedicines rt (JArr ms) searchQuery = array_filter (med_matches rt searchQuery) ms"
| "filteredMedicines rt JUndefined searchQuery = raise_fault rt (ReadOfNullish JUndefined ''filter'')"
| "filteredMedicines rt JNull searchQuery = raise_fault rt (ReadOfNullish JNull ''filter'')"
| "filteredMedicines rt v searchQuery = raise_fault rt (NotAFunction ''filter'')"

text \<open>
  An element is searchable when its three searched fields are strings. The match the
  filter computes on such an element: the lower-cased field contains the lower-cased
  query as a sequence of code units.
\<close>

fun is_string :: "jsval \<Rightarrow> bool" where
  "is_string (JStr s) = True"
| "is_string v = False"

fun string_of :: "jsval \<Rightarrow> ustring" where
  "string_of (JStr s) = s"
| "string_of v = []"

definition searchable :: "jsval \<Rightarrow> bool" where
  "searchable med =
     (is_string (js_get med ''name'') \<and> is_string (js_get med ''generic_name'')
      \<and> is_string (js_get med ''category''))"

definition field_matches :: "runtime \<Rightarrow> ustring \<Rightarrow> jsval \<Rightarrow> string \<Rightarrow> bool" where
  "field_matches rt q med k =
     str_includes (to_lower_case rt (string_of (js_get med k))) (to_lower_case rt q)"

definition matches_query :: "runtime \<Rightarrow> ustring \<Rightarrow> jsval \<Rightarrow> bool" where
  "matches_query rt q med =
     (field_matches rt q med ''name'' \<or> field_matches rt q med ''generic_name''
      \<or> field_matches rt q med ''category'')"

text \<open>
  The words of the specification: the field contains the query as a case-insensitive
  substring. With \<open>f\<close> the case folding of single code units, \<open>q\<close> occurs in \<open>s\<close> up
  to case when some stretch of \<open>s\<close> folds to the same units as \<open>q\<close>; with the identity for \<open>f\<close>
  this is plain containment.
\<close>

definition occurs_folded :: "(nat \<Rightarrow> nat) \<Rightarrow> ustring \<Rightarrow> ustring \<Rightarrow> bool" where
  "occurs_folded f s q = (\<exists>pre mid suf. s = pre @ mid @ suf \<and> map f mid = map f q)"

definition matches_folded :: "(nat \<Rightarrow> nat) \<Rightarrow> ustring \<Rightarrow> jsval \<Rightarrow> bool" where
  "matches_folded f q med =
     (occurs_folded f (string_of (js_get med ''name'')) q
      \<or> occurs_folded f (string_of (js_get med ''generic_name'')) q
      \<or> occurs_folded f (string_of (js_get med ''category'')) q)"

text \<open>
  \<^verbatim>\<open>toLowerCase\<close> acts on the query and on the searched fields of a list as the map of
  \<open>f\<close> over their code units. It does on ASCII and Latin-1 text; it does not in general.
\<close>

definition lowered_by :: "runtime \<Rightarrow> (nat \<Rightarrow> nat) \<Rightarrow> ustring \<Rightarrow> bool" where
  "lowered_by rt f s = (to_lower_case rt s = map f s)"

definition unitwise_on :: "runtime \<Rightarrow> (nat \<Rightarrow> nat) \<Rightarrow> jsval list \<Rightarrow> ustring \<Rightarrow> bool" where
  "unitwise_on rt f M q =
     (lowered_by rt f q
      \<and> list_all (\<lambda>med. lowered_by rt f (string_of (js_get med ''name''))
                     \<and> lowered_by rt f (string_of (js_get med ''generic_name''))
                     \<and> lowered_by rt f (string_of (js_get med ''category''))) M)"

text \<open>
  The evaluation of the three disjuncts on a medicine reaches a field that is not a
  string: the name, or the generic name when the name does not match, or the category
  when neither of the two matches.
\<close>

definition reaches_non_string :: "runtime \<Rightarrow> ustring \<Rightarrow> jsval \<Rightarrow> bool" where
  "reaches_non_string rt q med =
     (\<not> is_string (js_get med ''name'')
      \<or> (\<not> field_matches rt q med ''name''
          \<and> (\<not> is_string (js_get med ''generic_name'')
              \<or> (\<not> field_matches rt q med ''generic_name''
                  \<and> \<not> is_string (js_get med ''category'')))))"

subsection \<open>The low-stock flag\<close>

text \<open>
  The status cell of the inventory table:
  \<^verbatim>\<open>medicine.quantity <= (medicine.reorder_level || 10)\<close>.
\<close>

definition isLowStock :: "runtime \<Rightarrow> jsval \<Rightarrow> exn + bool" where
  "isLowStock rt medicine =
     and_then (js_prop rt medicine ''quantity'') (\<lambda>q.
     and_then (js_prop rt medicine ''reorder_level'') (\<lambda>r.
     js_le rt q (js_or r (JNum 10))))"

text \<open>
  The words of the specification: the reorder level that counts is the record's when
  it is truthy, and 10 otherwise. A reorder level is a number, \<^verbatim>\<open>NaN\<close>, \<^verbatim>\<open>null\<close> or
  absent.
\<close>

fun numeric_or_absent :: "jsval \<Rightarrow> bool" where
  "numeric_or_absent JUndefined = True"
| "numeric_or_absent JNull = True"
| "numeric_or_absent JNaN = True"
| "numeric_or_absent (JNum r) = True"
| "numeric_or_absent v = False"

fun effective_reorder_level :: "jsval \<Rightarrow> real" where
  "effective_reorder_level (JNum r) = (if r \<noteq> 0 then r else 10)"
| "effective_reorder_level v = 10"

subsection \<open>The greeting\<close>

text \<open>
  \<^verbatim>\<open>`Hey, ${user?.full_name?.split(" ")[0] || "User"}`\<close>, shown in the dashboard and in
  the preview card of the landing page. The code unit of the space is 32.
\<close>

definition greeting :: "runtime \<Rightarrow> jsval \<Rightarrow> exn + ustring" where
  "greeting rt usr =
     (let full_name = js_opt_get usr ''full_name'' in
      if js_nullish full_name then Inr (lit ''Hey, User'')
      else case full_name of
        JStr s \<Rightarrow>
          (let first = takeWhile (\<lambda>c. c \<noteq> 32) s
           in Inr (lit ''Hey, '' @ (if first = [] then lit ''User'' else first)))
      | _ \<Rightarrow> raise_fault rt (NotAFunction ''split''))"

section \<open>The request gateway\<close>

text \<open>
  \<^verbatim>\<open>fetchWithAuth(path, options = {})\<close> builds a request, awaits \<^verbatim>\<open>fetch\<close> and turns the
  response into a value or an exception. The network stands between the two halves, so
  each half is a function of its own. Header objects are maps from names to values;
  names are compared as written (object keys are case-sensitive).
\<close>

type_synonym headers = "ustring \<rightharpoonup> ustring"

record request_options =
  http_method :: "ustring option"
  headers :: "headers option"
  body :: "ustring option"

record request =
  url :: ustring
  request_method :: "ustring option"
  request_headers :: headers
  request_body :: "ustring option"

text \<open>
  \<^verbatim>\<open>
  const headers = { "Content-Type": "application/json", ...(options.headers || {}) };
  if (token) { headers.Authorization = `Bearer ${token}`; }
  const response = await fetch(`${cleanApiBase}${path}`, { ...options, headers });
  \<close>
  The template literal converts the token to a string, which throws for a token that is
  an object with an own \<^verbatim>\<open>toString\<close>; then no request is made.
\<close>

definition gateway_headers :: "runtime \<Rightarrow> jsval \<Rightarrow> headers option \<Rightarrow> exn + headers" where
  "gateway_headers rt token supplied =
     (let headers = [lit ''Content-Type'' \<mapsto> lit ''application/json'']
                      ++ (case supplied of None \<Rightarrow> Map.empty | Some h \<Rightarrow> h)
      in if js_truthy token
         then and_then (js_to_string rt token) (\<lambda>t.
                Inr (headers(lit ''Authorization'' \<mapsto> lit ''Bearer '' @ t)))
         else Inr headers)"

definition fetchWithAuth_request ::
    "runtime \<Rightarrow> ustring \<Rightarrow> jsval \<Rightarrow> ustring \<Rightarrow> request_options \<Rightarrow> exn + request" where
  "fetchWithAuth_request rt cleanApiBase token path options =
     and_then (gateway_headers rt token (headers options)) (\<lambda>hs.
     Inr \<lparr>url = cleanApiBase @ path,
          request_method = http_method options,
          request_headers = hs,
          request_body = body options\<rparr>)"

text \<open>
  What \<^verbatim>\<open>await fetch(...)\<close> gives: a rejection (a \<^verbatim>\<open>TypeError\<close> with the browser's
  message) or a response with its status and the text of its body.
\<close>

datatype fetch_result =
    Rejected ustring
  | Responded nat ustring

definition response_ok :: "nat \<Rightarrow> bool" where
  "response_ok status = (200 \<le> status \<and> status \<le> 299)"

text \<open>\<^verbatim>\<open>JSON.parse(text)\<close> throws a \<^verbatim>\<open>SyntaxError\<close>; \<^verbatim>\<open>response.json()\<close> rejects with it.\<close>

definition JSON_parse :: "runtime \<Rightarrow> ustring \<Rightarrow> exn + jsval" where
  "JSON_parse rt text =
     (case json_parse rt text of Inl m \<Rightarrow> Inl (SyntaxError m) | Inr v \<Rightarrow> Inr v)"

definition response_json :: "runtime \<Rightarrow> ustring \<Rightarrow> exn + jsval" where
  "response_json rt text = JSON_parse rt text"

text \<open>
  \<^verbatim>\<open>
  const safeJson = async (response) => {
    try { return await response.json(); } catch { return null; }
  };
  \<close>
\<close>

definition safeJson :: "runtime \<Rightarrow> ustring \<Rightarrow> jsval" where
  "safeJson rt text = (case response_json rt text of Inl e \<Rightarrow> JNull | Inr v \<Rightarrow> v)"

text \<open>
  \<^verbatim>\<open>
  if (!response.ok) {
    const detail = await safeJson(response);
    const errorMessage =
      detail?.detail || detail?.message || `Request failed (${response.status})`;
    throw new Error(errorMessage);
  }
  if (response.status === 204) { return null; }
  return response.json();
  \<close>
\<close>

definition fetchWithAuth_response :: "runtime \<Rightarrow> fetch_result \<Rightarrow> exn + jsval" where
  "fetchWithAuth_response rt res =
     (case res of
        Rejected m \<Rightarrow> Inl (TypeError m)
      | Responded status text \<Rightarrow>
          if \<not> response_ok status then
            (let detail = safeJson rt text;
                 errorMessage =
                   js_or (js_opt_get detail ''detail'')
                     (js_or (js_opt_get detail ''message'')
                        (JStr (lit ''Request failed ('' @ number_to_string rt (real status)
                               @ lit '')'')))
             in throw_Error rt errorMessage)
          else if status = 204 then Inr JNull
          else response_json rt text)"

section \<open>The application state\<close>

datatype auth_mode = Login | Register

record auth_values =
  email :: ustring
  password :: ustring
  full_name :: ustring
  role :: ustring

record medicine_form =
  name :: ustring
  generic_name :: ustring
  category :: ustring
  manufacturer :: ustring
  quantity :: jsval
  unit :: ustring
  reorder_level :: jsval
  unit_price :: jsval
  batch_number :: ustring
  expiry_date :: ustring
  location :: ustring
  description :: ustring

datatype variant = Info | Failure

text \<open>
  A request whose response has not arrived, with what its continuation captured when it
  was issued: the mode of the sign-in form, or the token of the render that issued it.
\<close>

datatype pending =
    AuthRequest "auth_mode option"
  | ProfileRequest jsval
  | MedicinesRequest jsval
  | AnalyticsRequest jsval
  | CreateRequest jsval
  | RefetchRequest jsval

text \<open>
  The state hooks of \<^verbatim>\<open>App\<close>, the record kept under \<^verbatim>\<open>pharmaventory_session\<close> in
  \<^verbatim>\<open>window.sessionStorage\<close>, the requests in flight and the number of toast timers
  that have not fired. \<open>token_ref\<close> stands for the identity of the value held in the
  token hook: React compares it with \<^verbatim>\<open>Object.is\<close>, which tells two objects apart even
  when they have the same content. The sidebar flag and the active section only choose
  what is painted and are left out, as is the console.
\<close>

record app =
  authMode :: "auth_mode option"
  authValues :: auth_values
  token :: jsval
  token_ref :: nat
  user :: jsval
  loading :: bool
  medicines :: jsval
  analytics :: jsval
  searchQuery :: ustring
  medicineForm :: medicine_form
  toast :: "(ustring \<times> variant) option"
  sessionStorage :: "ustring option"
  in_flight :: "pending list"
  timers :: nat

text \<open>
  The first render. The default expiry date is
  \<^verbatim>\<open>dayjs().add(6, "month").format("YYYY-MM-DD")\<close>, taken as a parameter; the session
  storage is what the browser tab already holds.
\<close>

definition initial_form :: "ustring \<Rightarrow> medicine_form" where
  "initial_form six_months_from_now =
     \<lparr>name = [], generic_name = [], category = [], manufacturer = [],
      quantity = JNum 0, unit = lit ''units'', reorder_level = JNum 10, unit_price = JNum 0,
      batch_number = [], expiry_date = six_months_from_now, location = [],
      description = []\<rparr>"

definition initial_app :: "ustring \<Rightarrow> ustring option \<Rightarrow> app" where
  "initial_app six_months_from_now stored =
     \<lparr>authMode = None,
      authValues = \<lparr>email = [], password = [], full_name = [], role = lit ''pharmacist''\<rparr>,
      token = JStr [], token_ref = 0, user = JNull, loading = False, medicines = JArr [],
      analytics = JNull, searchQuery = [],
      medicineForm = initial_form six_months_from_now,
      toast = None, sessionStorage = stored, in_flight = [], timers = 0\<rparr>"

definition authenticated :: "app \<Rightarrow> bool" where
  "authenticated s = js_truthy (token s)"

text \<open>
  \<^verbatim>\<open>setToken(v)\<close>: storing a primitive equal to the one held changes nothing; every other
  value is a new one (an object handed to \<^verbatim>\<open>setToken\<close> has just been parsed).
\<close>

definition setToken :: "jsval \<Rightarrow> app \<Rightarrow> app" where
  "setToken v s =
     (if is_primitive v \<and> v = token s then s
      else s\<lparr>token := v, token_ref := Suc (token_ref s)\<rparr>)"

text \<open>
  \<^verbatim>\<open>
  const showToast = (message, variant = "info") => {
    setToast({ message, variant });
    setTimeout(() => setToast(null), 4000);
  };
  \<close>
\<close>

definition showToast :: "ustring \<Rightarrow> variant \<Rightarrow> app \<Rightarrow> app" where
  "showToast m v s = s\<lparr>toast := Some (m, v), timers := Suc (timers s)\<rparr>"

definition toast_timeout :: "app \<Rightarrow> app" where
  "toast_timeout s = s\<lparr>toast := None, timers := timers s - 1\<rparr>"

text \<open>
  A call of \<^verbatim>\<open>fetchWithAuth\<close> from the application, which never passes headers of its
  own: the request is in flight once its headers are built, and the call has thrown
  otherwise.
\<close>

definition fetchWithAuth_issue :: "runtime \<Rightarrow> jsval \<Rightarrow> pending \<Rightarrow> app \<Rightarrow> exn + app" where
  "fetchWithAuth_issue rt tok p s =
     and_then (gateway_headers rt tok None) (\<lambda>hs.
     Inr (s\<lparr>in_flight := in_flight s @ [p]\<rparr>))"

subsection \<open>Restoring and persisting the session\<close>

text \<open>The object written by \<^verbatim>\<open>JSON.stringify({ token: t, user: u })\<close>.\<close>

definition session_record :: "jsval \<Rightarrow> jsval \<Rightarrow> jsval" where
  "session_record t u = JObj [(lit ''token'', t), (lit ''user'', u)]"

text \<open>
  \<^verbatim>\<open>
  const stored = window.sessionStorage.getItem(AUTH_STORAGE_KEY);
  if (stored) {
    try {
      const payload = JSON.parse(stored);
      if (payload.token) { setToken(payload.token); setUser(payload.user || null); }
    } catch (error) { console.error("Failed to parse stored session", error); }
  }
  \<close>
  \<open>restore_try\<close> is the body of the \<^verbatim>\<open>try\<close>, \<open>restore\<close> the whole effect.
\<close>

definition restore_try :: "runtime \<Rightarrow> ustring \<Rightarrow> app \<Rightarrow> exn + app" where
  "restore_try rt stored s =
     and_then (JSON_parse rt stored) (\<lambda>payload.
     and_then (js_prop rt payload ''token'') (\<lambda>t.
     if js_truthy t
     then and_then (js_prop rt payload ''user'') (\<lambda>u.
            Inr ((setToken t s)\<lparr>user := js_or u JNull\<rparr>))
     else Inr s))"

definition restore :: "runtime \<Rightarrow> app \<Rightarrow> app" where
  "restore rt s =
     (case sessionStorage s of
        None \<Rightarrow> s
      | Some stored \<Rightarrow>
          if stored = [] then s
          else (case restore_try rt stored s of Inl e \<Rightarrow> s | Inr s' \<Rightarrow> s'))"

subsection \<open>Effects that follow a render\<close>

text \<open>
  Two effects depend on the token. When \<^verbatim>\<open>authenticated\<close> has changed and is false,
  the sign-in form is closed. When the token has changed and is truthy, the profile, the
  medicine list and the analytics are requested, each request capturing the new token;
  a call that throws is caught around \<^verbatim>\<open>Promise.all\<close> and only logged:
  \<^verbatim>\<open>
  useEffect(() => { if (!authenticated) { setAuthMode(null); } }, [authenticated]);
  useEffect(() => {
    if (!token) { return; }
    ... await Promise.all([fetchProfile(), fetchMedicines(), fetchAnalytics()]); ...
  }, [token]);
  \<close>
  \<open>prev\<close> is the state of the render before.
\<close>

definition issue_or_log :: "runtime \<Rightarrow> jsval \<Rightarrow> pending \<Rightarrow> app \<Rightarrow> app" where
  "issue_or_log rt tok p s =
     (case fetchWithAuth_issue rt tok p s of Inl e \<Rightarrow> s | Inr s' \<Rightarrow> s')"

definition after_render :: "runtime \<Rightarrow> app \<Rightarrow> app \<Rightarrow> app" where
  "after_render rt prev s =
     (let s1 = (if authenticated prev \<noteq> authenticated s \<and> \<not> authenticated s
                then s\<lparr>authMode := None\<rparr> else s)
      in if token_ref prev \<noteq> token_ref s \<and> js_truthy (token s)
         then issue_or_log rt (token s) (AnalyticsRequest (token s))
                (issue_or_log rt (token s) (MedicinesRequest (token s))
                   (issue_or_log rt (token s) (ProfileRequest (token s)) s1))
         else s1)"

text \<open>Mounting: the restore effect runs once, then the effects of the render it causes.\<close>

definition mount :: "runtime \<Rightarrow> ustring \<Rightarrow> ustring option \<Rightarrow> app" where
  "mount rt six_months_from_now stored =
     (let s = initial_app six_months_from_now stored in after_render rt s (restore rt s))"

subsection \<open>Signing in and out\<close>

text \<open>
  \<^verbatim>\<open>setAuthValues((current) => ({ ...current, [name]: value }))\<close> for the four inputs of
  the sign-in form.
\<close>

definition handleAuthChange :: "string \<Rightarrow> ustring \<Rightarrow> app \<Rightarrow> app" where
  "handleAuthChange field val s =
     s\<lparr>authValues :=
         (if field = ''email'' then (authValues s)\<lparr>email := val\<rparr>
          else if field = ''password'' then (authValues s)\<lparr>password := val\<rparr>
          else if field = ''full_name'' then (authValues s)\<lparr>full_name := val\<rparr>
          else if field = ''role'' then (authValues s)\<lparr>role := val\<rparr>
          else authValues s)\<rparr>"

definition auth_endpoint :: "auth_mode option \<Rightarrow> ustring" where
  "auth_endpoint mode =
     (if mode = Some Register then lit ''/api/auth/register'' else lit ''/api/auth/login'')"

text \<open>
  \<^verbatim>\<open>handleAuthSubmit\<close> up to its first \<^verbatim>\<open>await\<close>: the loading flag is set and the
  request leaves with the mode of the form as it is now.
\<close>

definition handleAuthSubmit :: "app \<Rightarrow> app" where
  "handleAuthSubmit s =
     s\<lparr>loading := True, in_flight := in_flight s @ [AuthRequest (authMode s)]\<rparr>"

text \<open>
  The rest of \<^verbatim>\<open>handleAuthSubmit\<close>, once \<^verbatim>\<open>fetch\<close> has settled. No state is written
  between the two awaits (\<^verbatim>\<open>fetch\<close>, then \<^verbatim>\<open>response.json()\<close> or \<^verbatim>\<open>safeJson\<close>), so
  they are one step.
  \<^verbatim>\<open>
  if (!response.ok) {
    const detail = await safeJson(response);
    throw new Error(detail?.detail || "Authentication failed");
  }
  const result = await response.json();
  setToken(result.access_token);
  setUser(result.user);
  window.sessionStorage.setItem(AUTH_STORAGE_KEY,
    JSON.stringify({ token: result.access_token, user: result.user }));
  showToast(authMode === "register" ? "Registration successful" : "Logged in successfully");
  setAuthValues((current) => ({ ...current, password: "" }));
  \<close>
  \<open>auth_try\<close> is the body of the \<^verbatim>\<open>try\<close>; \<open>auth_settled\<close> adds
  \<^verbatim>\<open>catch (error) { showToast(error.message, "error") }\<close> and
  \<^verbatim>\<open>finally { setLoading(false) }\<close>.
\<close>

definition auth_try :: "runtime \<Rightarrow> auth_mode option \<Rightarrow> fetch_result \<Rightarrow> app \<Rightarrow> exn + app" where
  "auth_try rt mode res s =
     (case res of
        Rejected m \<Rightarrow> Inl (TypeError m)
      | Responded status text \<Rightarrow>
          if \<not> response_ok status then
            (let detail = safeJson rt text
             in throw_Error rt
                  (js_or (js_opt_get detail ''detail'') (JStr (lit ''Authentication failed''))))
          else
            and_then (response_json rt text) (\<lambda>result.
            and_then (js_prop rt result ''access_token'') (\<lambda>access_token.
            and_then (js_prop rt result ''user'') (\<lambda>usr.
            Inr ((showToast
                    (if mode = Some Register then lit ''Registration successful''
                     else lit ''Logged in successfully'') Info
                    ((setToken access_token s)
                       \<lparr>user := usr,
                        sessionStorage :=
                          Some (json_stringify rt (session_record access_token usr))\<rparr>))
                 \<lparr>authValues := (authValues s)\<lparr>password := []\<rparr>\<rparr>)))))"

definition auth_settled :: "runtime \<Rightarrow> auth_mode option \<Rightarrow> fetch_result \<Rightarrow> app \<Rightarrow> app" where
  "auth_settled rt mode res s =
     (case auth_try rt mode res s of
        Inl e \<Rightarrow> showToast (message e) Failure s
      | Inr s' \<Rightarrow> s')\<lparr>loading := False\<rparr>"

text \<open>
  \<^verbatim>\<open>
  const signOut = () => {
    setToken(""); setUser(null);
    window.sessionStorage.removeItem(AUTH_STORAGE_KEY);
    setMedicines([]); setAnalytics(null);
    showToast("You have signed out.");
  };
  \<close>
\<close>

definition signOut :: "app \<Rightarrow> app" where
  "signOut s =
     showToast (lit ''You have signed out.'') Info
       ((setToken (JStr []) s)
          \<lparr>user := JNull, sessionStorage := None, medicines := JArr [], analytics := JNull\<rparr>)"

subsection \<open>The data requests that follow a new token\<close>

text \<open>
  \<^verbatim>\<open>
  const fetchProfile = async () => {
    const profile = await fetchWithAuth("/api/auth/me");
    setUser(profile);
    window.sessionStorage.setItem(AUTH_STORAGE_KEY, JSON.stringify({ token, user: profile }));
  };
  const fetchMedicines = async () => { const items = await ...; setMedicines(items); };
  const fetchAnalytics = async () => { const data = await ...; setAnalytics(data); };
  \<close>
  \<open>tok\<close> is the token the closure captured. A failure is caught around
  \<^verbatim>\<open>Promise.all\<close> and only logged.
\<close>

definition profile_settled :: "runtime \<Rightarrow> jsval \<Rightarrow> fetch_result \<Rightarrow> app \<Rightarrow> app" where
  "profile_settled rt tok res s =
     (case fetchWithAuth_response rt res of
        Inl e \<Rightarrow> s
      | Inr profile \<Rightarrow>
          s\<lparr>user := profile,
            sessionStorage := Some (json_stringify rt (session_record tok profile))\<rparr>)"

definition medicines_settled :: "runtime \<Rightarrow> fetch_result \<Rightarrow> app \<Rightarrow> app" where
  "medicines_settled rt res s =
     (case fetchWithAuth_response rt res of
        Inl e \<Rightarrow> s
      | Inr items \<Rightarrow> s\<lparr>medicines := items\<rparr>)"

definition analytics_settled :: "runtime \<Rightarrow> fetch_result \<Rightarrow> app \<Rightarrow> app" where
  "analytics_settled rt res s =
     (case fetchWithAuth_response rt res of
        Inl e \<Rightarrow> s
      | Inr data \<Rightarrow> s\<lparr>analytics := data\<rparr>)"

subsection \<open>The create-medicine form\<close>

text \<open>
  \<^verbatim>\<open>
  setMedicineForm((current) => ({ ...current,
    [name]: name === "quantity" || name === "reorder_level" || name === "unit_price"
              ? Number(value) : value }));
  \<close>
  for the twelve inputs of the form.
\<close>

definition to_Number :: "runtime \<Rightarrow> ustring \<Rightarrow> jsval" where
  "to_Number rt val = (case string_to_number rt val of None \<Rightarrow> JNaN | Some r \<Rightarrow> JNum r)"

definition handleMedicineChange :: "runtime \<Rightarrow> string \<Rightarrow> ustring \<Rightarrow> app \<Rightarrow> app" where
  "handleMedicineChange rt field val s =
     (let current = medicineForm s in
      s\<lparr>medicineForm :=
         (if field = ''quantity'' then current\<lparr>quantity := to_Number rt val\<rparr>
          else if field = ''reorder_level'' then current\<lparr>reorder_level := to_Number rt val\<rparr>
          else if field = ''unit_price'' then current\<lparr>unit_price := to_Number rt val\<rparr>
          else if field = ''name'' then current\<lparr>name := val\<rparr>
          else if field = ''generic_name'' then current\<lparr>generic_name := val\<rparr>
          else if field = ''category'' then current\<lparr>category := val\<rparr>
          else if field = ''manufacturer'' then current\<lparr>manufacturer := val\<rparr>
          else if field = ''unit'' then current\<lparr>unit := val\<rparr>
          else if field = ''batch_number'' then current\<lparr>batch_number := val\<rparr>
          else if field = ''expiry_date'' then current\<lparr>expiry_date := val\<rparr>
          else if field = ''location'' then current\<lparr>location := val\<rparr>
          else if field = ''description'' then current\<lparr>description := val\<rparr>
          else current)\<rparr>)"

text \<open>
  \<^verbatim>\<open>handleCreateMedicine\<close> up to its first \<^verbatim>\<open>await\<close>. Building the body converts the
  expiry date with \<^verbatim>\<open>dayjs(...).toISOString()\<close>, which throws on an invalid date, inside
  the \<^verbatim>\<open>try\<close>, as does a call of \<^verbatim>\<open>fetchWithAuth\<close> that cannot build its headers.
  \<^verbatim>\<open>
  if (!authenticated) { showToast("Please login first", "error"); return; }
  try {
    await fetchWithAuth("/api/medicines", { method: "POST", body: JSON.stringify({...}) });
  \<close>
\<close>

definition handleCreateMedicine :: "runtime \<Rightarrow> app \<Rightarrow> app" where
  "handleCreateMedicine rt s =
     (if \<not> authenticated s then showToast (lit ''Please login first'') Failure s
      else case to_iso_string rt (expiry_date (medicineForm s)) of
        None \<Rightarrow> showToast (fault_message rt InvalidTime) Failure s
      | Some stamp \<Rightarrow>
          (case fetchWithAuth_issue rt (token s) (CreateRequest (token s)) s of
             Inl e \<Rightarrow> showToast (message e) Failure s
           | Inr s' \<Rightarrow> s'))"

text \<open>
  \<^verbatim>\<open>
    showToast("Medicine added");
    await fetchMedicines();
    setMedicineForm((current) => ({ ...current,
      name: "", generic_name: "", category: "", manufacturer: "", quantity: 0,
      reorder_level: 10, unit_price: 0, batch_number: "", location: "", description: "" }));
  } catch (error) { console.error(error); showToast(error.message, "error"); }
  \<close>
  \<open>create_settled\<close> runs when the POST has settled, \<open>refetch_settled\<close> when the list
  request that follows it has.
\<close>

definition reset_form :: "medicine_form \<Rightarrow> medicine_form" where
  "reset_form current =
     current\<lparr>name := [], generic_name := [], category := [], manufacturer := [],
       quantity := JNum 0, reorder_level := JNum 10, unit_price := JNum 0,
       batch_number := [], location := [], description := []\<rparr>"

definition create_settled :: "runtime \<Rightarrow> jsval \<Rightarrow> fetch_result \<Rightarrow> app \<Rightarrow> app" where
  "create_settled rt tok res s =
     (case fetchWithAuth_response rt res of
        Inl e \<Rightarrow> showToast (message e) Failure s
      | Inr v \<Rightarrow>
          (let s1 = showToast (lit ''Medicine added'') Info s
           in case fetchWithAuth_issue rt tok (RefetchRequest tok) s1 of
                Inl e \<Rightarrow> showToast (message e) Failure s1
              | Inr s2 \<Rightarrow> s2))"

definition refetch_settled :: "runtime \<Rightarrow> fetch_result \<Rightarrow> app \<Rightarrow> app" where
  "refetch_settled rt res s =
     (case fetchWithAuth_response rt res of
        Inl e \<Rightarrow> showToast (message e) Failure s
      | Inr items \<Rightarrow> s\<lparr>medicines := items, medicineForm := reset_form (medicineForm s)\<rparr>)"

section \<open>Events\<close>

text \<open>
  Everything happens on one thread, one event at a time: a user action on a control
  that is on the screen, the arrival of the response to a request in flight, or a toast
  timer. The landing page (with the sign-in form when \<open>authMode\<close> is set) is on the
  screen when the application is not authenticated, the dashboard when it is. The
  submit button of the sign-in form is disabled while \<open>loading\<close> is set, but
  \<^verbatim>\<open>handleAuthSubmit\<close> has no guard of its own and runs on every submit event of the
  form.
\<close>

datatype event =
    OpenAuth auth_mode
  | CloseAuth
  | AuthChange string ustring
  | AuthSubmit
  | SignOut
  | SearchChange ustring
  | MedicineChange string ustring
  | CreateMedicine
  | Settle nat fetch_result
  | ToastTimeout

fun settle :: "runtime \<Rightarrow> pending \<Rightarrow> fetch_result \<Rightarrow> app \<Rightarrow> app" where
  "settle rt (AuthRequest mode) res s = auth_settled rt mode res s"
| "settle rt (ProfileRequest tok) res s = profile_settled rt tok res s"
| "settle rt (MedicinesRequest tok) res s = medicines_settled rt res s"
| "settle rt (AnalyticsRequest tok) res s = analytics_settled rt res s"
| "settle rt (CreateRequest tok) res s = create_settled rt tok res s"
| "settle rt (RefetchRequest tok) res s = refetch_settled rt res s"

definition remove_nth :: "nat \<Rightarrow> 'a list \<Rightarrow> 'a list" where
  "remove_nth i xs = take i xs @ drop (Suc i) xs"

fun handle :: "runtime \<Rightarrow> event \<Rightarrow> app \<Rightarrow> app" where
  "handle rt (OpenAuth mode) s = (if authenticated s then s else s\<lparr>authMode := Some mode\<rparr>)"
| "handle rt CloseAuth s =
     (if authenticated s \<or> authMode s = None then s else s\<lparr>authMode := None\<rparr>)"
| "handle rt (AuthChange field val) s =
     (if authenticated s \<or> authMode s = None then s else handleAuthChange field val s)"
| "handle rt AuthSubmit s =
     (if authenticated s \<or> authMode s = None then s else handleAuthSubmit s)"
| "handle rt SignOut s = (if authenticated s then signOut s else s)"
| "handle rt (SearchChange q) s = (if authenticated s then s\<lparr>searchQuery := q\<rparr> else s)"
| "handle rt (MedicineChange field val) s =
     (if authenticated s then handleMedicineChange rt field val s else s)"
| "handle rt CreateMedicine s = (if authenticated s then handleCreateMedicine rt s else s)"
| "handle rt (Settle i res) s =
     (if i < length (in_flight s)
      then settle rt (in_flight s ! i) res (s\<lparr>in_flight := remove_nth i (in_flight s)\<rparr>)
      else s)"
| "handle rt ToastTimeout s = (if 0 < timers s then toast_timeout s else s)"

definition step :: "runtime \<Rightarrow> app \<Rightarrow> event \<Rightarrow> app" where
  "step rt s e = after_render rt s (handle rt e s)"

definition run :: "runtime \<Rightarrow> app \<Rightarrow> event list \<Rightarrow> app" where
  "run rt s es = foldl (step rt) s es"

section \<open>Runs without a sign-in\<close>

text \<open>
  An event settles a sign-in when it delivers the response of a request that
  \<^verbatim>\<open>handleAuthSubmit\<close> issued. A run is quiet when none of its events does.
\<close>

fun settles_sign_in :: "app \<Rightarrow> event \<Rightarrow> bool" where
  "settles_sign_in s (Settle i res) =
     (i < length (in_flight s)
      \<and> (case in_flight s ! i of AuthRequest mode \<Rightarrow> True | _ \<Rightarrow> False))"
| "settles_sign_in s e = False"

fun quiet :: "runtime \<Rightarrow> app \<Rightarrow> event list \<Rightarrow> bool" where
  "quiet rt s [] = True"
| "quiet rt s (e # es) = (\<not> settles_sign_in s e \<and> quiet rt (step rt s e) es)"

text \<open>
  The persisted text reads back as the value that was written and is not the empty
  string: what \<^verbatim>\<open>JSON.parse\<close> and \<^verbatim>\<open>JSON.stringify\<close> guarantee on a value that came out
  of \<^verbatim>\<open>JSON.parse\<close>.
\<close>

definition codec_faithful :: "runtime \<Rightarrow> jsval \<Rightarrow> bool" where
  "codec_faithful rt v =
     (json_stringify rt v \<noteq> [] \<and> json_parse rt (json_stringify rt v) = Inr v)"

text \<open>
  The notice after a sign-in that the server refused, in the words of the
  specification: the \<^verbatim>\<open>detail\<close> that the server provided in a JSON object, if there is a
  truthy one, and "Authentication failed" otherwise. A detail that is not a string is
  shown as \<^verbatim>\<open>String\<close> converts it, or as the message of the \<^verbatim>\<open>TypeError\<close> that the
  conversion throws.
\<close>

definition server_detail :: "runtime \<Rightarrow> ustring \<Rightarrow> jsval" where
  "server_detail rt text =
     (case json_parse rt text of
        Inl m \<Rightarrow> JUndefined
      | Inr (JObj kvs) \<Rightarrow> (case map_of kvs (lit ''detail'') of None \<Rightarrow> JUndefined | Some d \<Rightarrow> d)
      | Inr v \<Rightarrow> JUndefined)"

definition failure_notice :: "runtime \<Rightarrow> jsval \<Rightarrow> ustring" where
  "failure_notice rt d =
     (if js_truthy d
      then (case js_to_string rt d of Inl e \<Rightarrow> message e | Inr m \<Rightarrow> m)
      else lit ''Authentication failed'')"

text \<open>
  The header a request carries under a name, in the words of the specification, apart
  from \<^verbatim>\<open>Authorization\<close>: the caller's value when the caller supplied one, and
  otherwise the gateway's \<^verbatim>\<open>Content-Type\<close>.
\<close>

definition caller_or_default :: "request_options \<Rightarrow> ustring \<Rightarrow> ustring option" where
  "caller_or_default options k =
     (case (case headers options of None \<Rightarrow> Map.empty | Some h \<Rightarrow> h) k of
        Some v \<Rightarrow> Some v
      | None \<Rightarrow> if k = lit ''Content-Type'' then Some (lit ''application/json'') else None)"

section \<open>A sample runtime\<close>

text \<open>
  The theorems below hold for every runtime. To evaluate the model on concrete inputs a
  runtime is needed; this one is a table of the few texts and values the examples use,
  with the results JavaScript gives on them. Every other text fails to parse.
\<close>

definition login_body :: ustring where
  \<open>login_body = lit ''{"access_token":"t1","user":{"full_name":"Ada Lovelace"}}''\<close>

definition session_text :: ustring where
  \<open>session_text = lit ''{"token":"t1","user":{"full_name":"Ada Lovelace"}}''\<close>

definition profile_body :: ustring where
  \<open>profile_body = lit ''{"full_name":"Ada Lovelace"}''\<close>

definition denied_body :: ustring where
  \<open>denied_body = lit ''{"detail":"Invalid credentials"}''\<close>

definition odd_detail_body :: ustring where
  \<open>odd_detail_body = lit ''{"detail":{"toString":1}}''\<close>

definition empty_list_body :: ustring where
  "empty_list_body = lit ''[]''"

definition not_json :: ustring where
  "not_json = lit ''<html>''"

definition default_expiry :: ustring where
  "default_expiry = lit ''2027-05-02''"

definition chosen_expiry :: ustring where
  "chosen_expiry = lit ''2030-01-01''"

definition ada :: jsval where
  "ada = JObj [(lit ''full_name'', JStr (lit ''Ada Lovelace''))]"

definition sample_parse :: "ustring \<Rightarrow> ustring + jsval" where
  "sample_parse text =
     (if text = login_body
        then Inr (JObj [(lit ''access_token'', JStr (lit ''t1'')), (lit ''user'', ada)])
      else if text = session_text then Inr (session_record (JStr (lit ''t1'')) ada)
      else if text = profile_body then Inr ada
      else if text = denied_body
        then Inr (JObj [(lit ''detail'', JStr (lit ''Invalid credentials''))])
      else if text = odd_detail_body
        then Inr (JObj [(lit ''detail'', JObj [(lit ''toString'', JNum 1)])])
      else if text = empty_list_body then Inr (JArr [])
      else Inl (lit ''Unexpected token''))"

definition sample_stringify :: "jsval \<Rightarrow> ustring" where
  "sample_stringify v =
     (if v = session_record (JStr (lit ''t1'')) ada then session_text else lit ''{}'')"

definition sample_fault_message :: "fault \<Rightarrow> ustring" where
  "sample_fault_message f =
     (case f of
        ReadOfNullish v k \<Rightarrow>
          lit ''Cannot read properties of '' @ (if v = JNull then lit ''null'' else lit ''undefined'')
      | NotAFunction k \<Rightarrow> lit k @ lit '' is not a function''
      | NotPrimitive \<Rightarrow> lit ''Cannot convert object to primitive value''
      | InvalidTime \<Rightarrow> lit ''Invalid time value'')"

text \<open>
  Lower case, unit by unit, for the capital letters of ASCII (65 to 90), of Latin-1 (192
  to 222 without the multiplication sign 215) and of Greek (913 to 939; 930 is not a
  letter): each moves up by 32. \<^verbatim>\<open>toLowerCase\<close> is this map on the sample texts, except
  where a capital sigma (931) ends a word: it becomes the final sigma (962), as in the
  two-letter text alpha, sigma.
\<close>

definition lower_unit :: "nat \<Rightarrow> nat" where
  "lower_unit n =
     (if (65 \<le> n \<and> n \<le> 90) \<or> (192 \<le> n \<and> n \<le> 222 \<and> n \<noteq> 215)
         \<or> (913 \<le> n \<and> n \<le> 939 \<and> n \<noteq> 930)
      then n + 32 else n)"

definition sample_lower :: "ustring \<Rightarrow> ustring" where
  "sample_lower s = (if s = [913, 931] then [945, 962] else map lower_unit s)"

definition sample_runtime :: runtime where
  "sample_runtime =
     \<lparr>json_parse = sample_parse,
      json_stringify = sample_stringify,
      number_to_string =
        (\<lambda>r. if r = 401 then lit ''401'' else if r = 500 then lit ''500'' else lit ''0''),
      string_to_number =
        (\<lambda>s. if s = lit ''5'' then Some 5 else if s = lit ''10'' then Some 10 else None),
      to_lower_case = sample_lower,
      fault_message = sample_fault_message,
      to_iso_string =
        (\<lambda>d. if d = default_expiry then Some (lit ''2027-05-02T00:00:00.000Z'')
             else if d = chosen_expiry then Some (lit ''2030-01-01T00:00:00.000Z'')
             else None)\<rparr>"

section \<open>Sample data\<close>

definition aspirin :: jsval where
  "aspirin =
     JObj [(lit ''name'', JStr (lit ''Aspirin'')),
           (lit ''generic_name'', JStr (lit ''Acetylsalicylic acid'')),
           (lit ''category'', JStr (lit ''Analgesic'')), (lit ''quantity'', JNum 5),
           (lit ''reorder_level'', JNum 0)]"

definition ibuprofen :: jsval where
  "ibuprofen =
     JObj [(lit ''name'', JStr (lit ''Ibuprofen'')),
           (lit ''generic_name'', JStr (lit ''Ibuprofen'')),
           (lit ''category'', JStr (lit ''NSAID'')), (lit ''quantity'', JNum 40),
           (lit ''reorder_level'', JNum 20)]"

text \<open>A record without a generic name, and one without a name.\<close>

definition unlabelled :: jsval where
  "unlabelled =
     JObj [(lit ''name'', JStr (lit ''Aspirin'')), (lit ''category'', JStr (lit ''Analgesic''))]"

definition nameless :: jsval where
  "nameless =
     JObj [(lit ''generic_name'', JStr (lit ''Ibuprofen'')),
           (lit ''category'', JStr (lit ''NSAID''))]"

text \<open>
  A record with a Greek name, in capitals: alpha, sigma, pi, iota, rho, iota, nu, eta.
  The query alpha, sigma is its first two letters.
\<close>

definition greek_name :: ustring where
  "greek_name = [913, 931, 928, 921, 929, 921, 925, 919]"

definition greek_query :: ustring where
  "greek_query = [913, 931]"

definition greek_aspirin :: jsval where
  "greek_aspirin =
     JObj [(lit ''name'', JStr greek_name), (lit ''generic_name'', JStr (lit ''aspirin'')),
           (lit ''category'', JStr (lit ''analgesic''))]"

text \<open>
  Sign in; then sign out while the profile request is still in flight; then let its
  response arrive.
\<close>

definition signed_in_trace :: "event list" where
  "signed_in_trace = [OpenAuth Login, AuthSubmit, Settle 0 (Responded 200 login_body)]"

definition signed_out_trace :: "event list" where
  "signed_out_trace = signed_in_trace @ [SignOut]"

definition late_profile_trace :: "event list" where
  "late_profile_trace = signed_out_trace @ [Settle 0 (Responded 200 profile_body)]"

text \<open>
  Submit the sign-in form twice, sign out after the first response, then let the second
  response arrive.
\<close>

definition stale_sign_in_trace :: "event list" where
  "stale_sign_in_trace =
     [OpenAuth Login, AuthSubmit, AuthSubmit, Settle 0 (Responded 200 login_body), SignOut,
      Settle 0 (Responded 200 login_body)]"

text \<open>
  Sign in, fill in the form (with a unit and an expiry date of the user's choice),
  submit it, and let the POST and the list request after it succeed.
\<close>

definition create_trace :: "event list" where
  "create_trace =
     signed_in_trace @
     [MedicineChange ''name'' (lit ''Aspirin''), MedicineChange ''unit'' (lit ''tablets''),
      MedicineChange ''expiry_date'' chosen_expiry, CreateMedicine,
      Settle 3 (Responded 204 []), Settle 3 (Responded 200 empty_list_body)]"

text \<open>
  Options with headers of the caller's, options with an \<^verbatim>\<open>Authorization\<close> header of
  the caller's, and a token that is an object with an own \<^verbatim>\<open>toString\<close>.
\<close>

definition sample_options :: request_options where
  "sample_options =
     \<lparr>http_method = Some (lit ''POST''),
      headers = Some [lit ''Content-Type'' \<mapsto> lit ''text/plain'', lit ''X-Trace'' \<mapsto> lit ''1''],
      body = Some (lit ''{}'')\<rparr>"

definition basic_options :: request_options where
  "basic_options =
     \<lparr>http_method = None, headers = Some [lit ''Authorization'' \<mapsto> lit ''Basic abc''],
      body = None\<rparr>"

definition odd_token :: jsval where
  "odd_token = JObj [(lit ''toString'', JNum 1)]"

text \<open>The form after the user has typed a name, a unit and an expiry date.\<close>

definition filled_form :: medicine_form where
  "filled_form =
     (initial_form default_expiry)
       \<lparr>name := lit ''Aspirin'', unit := lit ''tablets'', expiry_date := chosen_expiry\<rparr>"

section \<open>Facts about strings and the filter\<close>

lemma lit_eq_iff: "lit s = lit t \<longleftrightarrow> s = t"
  unfolding lit_def by (rule inj_map_eq_map) (rule inj_of_char)

lemma lit_empty_iff: "lit s = [] \<longleftrightarrow> s = []" "[] = lit s \<longleftrightarrow> s = []"
  by (auto simp: lit_def)

lemma js_to_primitive_is_primitive: "js_to_primitive rt v = Inr p \<Longrightarrow> is_primitive p"
  by (cases v) (auto split: sum.splits)

lemma str_includes_iff: "str_includes s q \<longleftrightarrow> (\<exists>pre suf. s = pre @ q @ suf)"
proof (induction s)
  case Nil
  then show ?case by auto
next
  case (Cons c s)
  have "take (length q) (c # s) = q \<longleftrightarrow> (\<exists>suf. c # s = q @ suf)"
    by (metis append_eq_conv_conj append_take_drop_id)
  moreover have "(\<exists>pre suf. c # s = pre @ q @ suf) \<longleftrightarrow>
      (\<exists>suf. c # s = q @ suf) \<or> (\<exists>pre suf. s = pre @ q @ suf)"
  proof
    assume "\<exists>pre suf. c # s = pre @ q @ suf"
    then obtain pre suf where e: "c # s = pre @ q @ suf" by blast
    show "(\<exists>suf. c # s = q @ suf) \<or> (\<exists>pre suf. s = pre @ q @ suf)"
    proof (cases pre)
      case Nil
      with e show ?thesis by auto
    next
      case (Cons a pre')
      with e have "s = pre' @ q @ suf" by simp
      then show ?thesis by blast
    qed
  next
    assume "(\<exists>suf. c # s = q @ suf) \<or> (\<exists>pre suf. s = pre @ q @ suf)"
    then show "\<exists>pre suf. c # s = pre @ q @ suf"
    proof
      assume "\<exists>suf. c # s = q @ suf"
      then obtain suf where "c # s = [] @ q @ suf" by auto
      then show ?thesis by blast
    next
      assume "\<exists>pre suf. s = pre @ q @ suf"
      then obtain pre suf where "s = pre @ q @ suf" by blast
      then have "c # s = (c # pre) @ q @ suf" by simp
      then show ?thesis by blast
    qed
  qed
  ultimately show ?case using Cons.IH by simp
qed

lemma str_includes_empty: "str_includes s []"
  by (cases s) simp_all

lemma includes_folded: "str_includes (map f s) (map f q) \<longleftrightarrow> occurs_folded f s q"
proof
  assume "str_includes (map f s) (map f q)"
  then obtain pre suf where "map f s = pre @ map f q @ suf"
    by (auto simp: str_includes_iff)
  then obtain us vs where s: "s = us @ vs" and "pre = map f us" and v: "map f q @ suf = map f vs"
    by (auto simp: map_eq_append_conv)
  from v obtain mid ws where "vs = mid @ ws" and "map f q = map f mid"
    by (metis map_eq_append_conv)
  with s have "s = us @ mid @ ws \<and> map f mid = map f q" by simp
  then show "occurs_folded f s q" unfolding occurs_folded_def by blast
next
  assume "occurs_folded f s q"
  then obtain pre mid suf where "s = pre @ mid @ suf" and "map f mid = map f q"
    unfolding occurs_folded_def by blast
  then have "map f s = map f pre @ map f q @ map f suf" by simp
  then show "str_includes (map f s) (map f q)" unfolding str_includes_iff by blast
qed

lemma field_includes_eval:
  "field_includes rt med k q =
     (if js_nullish med then raise_fault rt (ReadOfNullish med k)
      else case js_get med k of
        JStr s \<Rightarrow> Inr (str_includes (to_lower_case rt s) (to_lower_case rt q))
      | JUndefined \<Rightarrow> raise_fault rt (ReadOfNullish JUndefined ''toLowerCase'')
      | JNull \<Rightarrow> raise_fault rt (ReadOfNullish JNull ''toLowerCase'')
      | _ \<Rightarrow> raise_fault rt (NotAFunction ''toLowerCase''))"
  by (cases "js_get med k")
     (simp_all add: field_includes_def and_then_def js_prop_def raise_fault_def)

lemma nullish_get: "js_nullish med \<Longrightarrow> js_get med k = JUndefined"
  by (auto simp: js_nullish_def)

lemma field_includes_string:
  "is_string (js_get med k) \<Longrightarrow> field_includes rt med k q = Inr (field_matches rt q med k)"
  using nullish_get[of med k]
  by (cases "js_get med k") (auto simp: field_includes_eval field_matches_def)

lemma field_includes_non_string:
  "\<not> is_string (js_get med k) \<Longrightarrow> isl (field_includes rt med k q)"
  by (cases "js_get med k") (auto simp: field_includes_eval raise_fault_def)

lemma med_matches_searchable:
  "searchable med \<Longrightarrow> med_matches rt q med = Inr (matches_query rt q med)"
  by (simp add: searchable_def med_matches_def field_includes_string or_else_def
      matches_query_def split: bool.splits)

lemma or_else_isl:
  "isl (or_else a b) \<longleftrightarrow> isl a \<or> (a = Inr False \<and> isl b)"
  by (cases a) (auto simp: or_else_def split: bool.splits)

lemma field_includes_isl:
  "isl (field_includes rt med k q) \<longleftrightarrow> \<not> is_string (js_get med k)"
  using field_includes_non_string[of med k rt q] field_includes_string[of med k rt q]
  by auto

lemma field_includes_False:
  "field_includes rt med k q = Inr False \<longleftrightarrow>
     is_string (js_get med k) \<and> \<not> field_matches rt q med k"
proof (cases "is_string (js_get med k)")
  case True
  then show ?thesis by (simp add: field_includes_string)
next
  case False
  then have "isl (field_includes rt med k q)" by (rule field_includes_non_string)
  with False show ?thesis by auto
qed

lemma med_matches_throws:
  "isl (med_matches rt q med) \<longleftrightarrow> reaches_non_string rt q med"
  unfolding med_matches_def reaches_non_string_def
  by (simp add: or_else_isl field_includes_isl field_includes_False)

lemma array_filter_total:
  "\<forall>x\<in>set xs. p x = Inr (P x) \<Longrightarrow> array_filter p xs = Inr (filter P xs)"
  by (induction xs) auto

lemma array_filter_throws:
  "isl (array_filter p xs) \<longleftrightarrow> (\<exists>x\<in>set xs. isl (p x))"
  by (induction xs) (auto split: sum.splits simp: isl_def)

lemma unitwise_matches:
  assumes "unitwise_on rt f M q" and "med \<in> set M"
  shows "matches_query rt q med = matches_folded f q med"
proof -
  from assms have "lowered_by rt f q"
    and "lowered_by rt f (string_of (js_get med ''name''))"
    and "lowered_by rt f (string_of (js_get med ''generic_name''))"
    and "lowered_by rt f (string_of (js_get med ''category''))"
    by (auto simp: unitwise_on_def list_all_iff)
  then show ?thesis
    by (simp add: matches_query_def matches_folded_def field_matches_def lowered_by_def
        includes_folded)
qed

section \<open>Derived views\<close>

text \<open>
  Claim C3, as the code has it: on a list whose elements all have string \<^verbatim>\<open>name\<close>,
  \<^verbatim>\<open>generic_name\<close> and \<^verbatim>\<open>category\<close>, the filter returns, in their original order,
  exactly the elements of which one of the three fields, lower-cased by
  \<^verbatim>\<open>toLowerCase\<close>, contains the lower-cased query as a sequence of code units; with the
  empty query it returns the whole list. Where \<^verbatim>\<open>toLowerCase\<close> maps the query and the
  fields code unit by code unit (as on ASCII and Latin-1 text), these are exactly the
  elements of which a field contains the query as a case-insensitive substring. In
  general they are not: \<^verbatim>\<open>toLowerCase\<close> depends on the context of a letter.
\<close>

theorem filteredMedicines_exact:
  assumes "\<forall>med\<in>set M. searchable med"
  shows "filteredMedicines rt (JArr M) q = Inr (filter (matches_query rt q) M)
       \<and> (to_lower_case rt [] = [] \<longrightarrow> filteredMedicines rt (JArr M) [] = Inr M)
       \<and> (unitwise_on rt f M q
            \<longrightarrow> filteredMedicines rt (JArr M) q = Inr (filter (matches_folded f q) M))"
proof -
  have a: "\<And>q. filteredMedicines rt (JArr M) q = Inr (filter (matches_query rt q) M)"
    using assms by (simp add: array_filter_total med_matches_searchable)
  have b: "filter (matches_query rt []) M = M" if "to_lower_case rt [] = []"
    using that by (simp add: matches_query_def field_matches_def str_includes_empty)
  have c: "filter (matches_query rt q) M = filter (matches_folded f q) M"
    if "unitwise_on rt f M q"
    using unitwise_matches[OF that] by (auto intro: filter_cong)
  from a[of q] a[of "[]"] b c show ?thesis by simp
qed

text \<open>
  Claim C4: for a medicine whose quantity is the number \<open>q\<close> and whose reorder level
  \<open>r\<close> is a number, \<^verbatim>\<open>NaN\<close>, \<^verbatim>\<open>null\<close> or absent, the low-stock flag is true if and only
  if \<open>q\<close> is at most the effective reorder level: \<open>r\<close> when it is truthy (a number
  other than zero), and 10 otherwise.
\<close>

theorem isLowStock_iff:
  assumes "js_get med ''quantity'' = JNum q"
    and "numeric_or_absent (js_get med ''reorder_level'')"
  shows "isLowStock rt med = Inr (q \<le> effective_reorder_level (js_get med ''reorder_level''))"
proof -
  from assms(1) have n: "\<not> js_nullish med" by (auto simp: js_nullish_def)
  show ?thesis
    using assms n
    by (cases "js_get med ''reorder_level''")
       (simp_all add: isLowStock_def and_then_def js_prop_def js_or_def js_le_def
          primitive_le_def)
qed

text \<open>
  Claim C10, as the code has it: the filter throws if and only if, on some element, the
  evaluation of the three disjuncts reaches a field that is not a string: the name, or
  the generic name when the name does not contain the query, or the category when
  neither does. A missing field behind a field that already matched is never read. So
  the filter is total when all three fields of every element are strings, and it throws
  whenever some element has no string name.
\<close>

theorem filteredMedicines_throws_iff:
  "(isl (filteredMedicines rt (JArr M) q) \<longleftrightarrow> (\<exists>med\<in>set M. reaches_non_string rt q med))
   \<and> ((\<forall>med\<in>set M. searchable med) \<longrightarrow> \<not> isl (filteredMedicines rt (JArr M) q))
   \<and> ((\<exists>med\<in>set M. \<not> is_string (js_get med ''name''))
        \<longrightarrow> isl (filteredMedicines rt (JArr M) q))"
proof -
  have a: "isl (filteredMedicines rt (JArr M) q) \<longleftrightarrow> (\<exists>med\<in>set M. reaches_non_string rt q med)"
    by (simp add: array_filter_throws med_matches_throws)
  have b: "\<not> reaches_non_string rt q med" if "searchable med" for med
    using that by (simp add: searchable_def reaches_non_string_def)
  have c: "reaches_non_string rt q med" if "\<not> is_string (js_get med ''name'')" for med
    using that by (simp add: reaches_non_string_def)
  from a b c show ?thesis by blast
qed

section \<open>Facts about the sample runtime\<close>

lemma sample_simps:
  "json_parse sample_runtime = sample_parse"
  "json_stringify sample_runtime = sample_stringify"
  "to_lower_case sample_runtime = sample_lower"
  "fault_message sample_runtime = sample_fault_message"
  by (simp_all add: sample_runtime_def)

lemma lower_samples:
  "sample_lower (lit ''ASP'') = lit ''asp''"
  "sample_lower (lit ''asp'') = lit ''asp''"
  "sample_lower (lit ''Aspirin'') = lit ''aspirin''"
  "sample_lower (lit ''Acetylsalicylic acid'') = lit ''acetylsalicylic acid''"
  "sample_lower (lit ''Analgesic'') = lit ''analgesic''"
  "sample_lower (lit ''Ibuprofen'') = lit ''ibuprofen''"
  "sample_lower (lit ''NSAID'') = lit ''nsaid''"
  "sample_lower (lit ''aspirin'') = lit ''aspirin''"
  "sample_lower (lit ''analgesic'') = lit ''analgesic''"
  "sample_lower [] = []"
  "sample_lower greek_query = [945, 962]"
  "sample_lower greek_name = [945, 963, 960, 953, 961, 953, 957, 951]"
  by (simp_all add: sample_lower_def lit_def lower_unit_def greek_query_def greek_name_def)

lemma unit_lower_samples:
  "map lower_unit (lit ''ASP'') = lit ''asp''"
  "map lower_unit (lit ''Aspirin'') = lit ''aspirin''"
  "map lower_unit (lit ''Acetylsalicylic acid'') = lit ''acetylsalicylic acid''"
  "map lower_unit (lit ''Analgesic'') = lit ''analgesic''"
  "map lower_unit (lit ''Ibuprofen'') = lit ''ibuprofen''"
  "map lower_unit (lit ''NSAID'') = lit ''nsaid''"
  by (simp_all add: lit_def lower_unit_def)

lemma medicine_fields:
  "js_get aspirin ''name'' = JStr (lit ''Aspirin'')"
  "js_get aspirin ''generic_name'' = JStr (lit ''Acetylsalicylic acid'')"
  "js_get aspirin ''category'' = JStr (lit ''Analgesic'')"
  "js_get aspirin ''quantity'' = JNum 5"
  "js_get aspirin ''reorder_level'' = JNum 0"
  "js_get ibuprofen ''name'' = JStr (lit ''Ibuprofen'')"
  "js_get ibuprofen ''generic_name'' = JStr (lit ''Ibuprofen'')"
  "js_get ibuprofen ''category'' = JStr (lit ''NSAID'')"
  "js_get ibuprofen ''quantity'' = JNum 40"
  "js_get ibuprofen ''reorder_level'' = JNum 20"
  "js_get unlabelled ''name'' = JStr (lit ''Aspirin'')"
  "js_get unlabelled ''generic_name'' = JUndefined"
  "js_get nameless ''name'' = JUndefined"
  "js_get greek_aspirin ''name'' = JStr greek_name"
  "js_get greek_aspirin ''generic_name'' = JStr (lit ''aspirin'')"
  "js_get greek_aspirin ''category'' = JStr (lit ''analgesic'')"
  by (simp_all add: aspirin_def ibuprofen_def unlabelled_def nameless_def greek_aspirin_def
      lit_eq_iff)

lemma lit_includes:
  "str_includes (lit ''aspirin'') (lit ''asp'')"
  "\<not> str_includes (lit ''ibuprofen'') (lit ''asp'')"
  "\<not> str_includes (lit ''nsaid'') (lit ''asp'')"
  "\<not> str_includes (lit ''aspirin'') [945, 962]"
  "\<not> str_includes (lit ''analgesic'') [945, 962]"
  "\<not> str_includes [945, 963, 960, 953, 961, 953, 957, 951] [945, 962]"
  "str_includes greek_name greek_query"
  by (simp_all add: lit_def greek_name_def greek_query_def)

theorem filteredMedicines_exact_witness:
  "searchable aspirin \<and> searchable ibuprofen
   \<and> to_lower_case sample_runtime [] = []
   \<and> unitwise_on sample_runtime lower_unit [aspirin, ibuprofen] (lit ''ASP'')
   \<and> filteredMedicines sample_runtime (JArr [aspirin, ibuprofen]) (lit ''ASP'') = Inr [aspirin]
   \<and> filteredMedicines sample_runtime (JArr [aspirin, ibuprofen]) [] = Inr [aspirin, ibuprofen]
   \<and> filter (matches_folded lower_unit (lit ''ASP'')) [aspirin, ibuprofen] = [aspirin]"
proof -
  have s: "searchable aspirin" "searchable ibuprofen"
    by (simp_all add: searchable_def medicine_fields)
  then have h: "\<forall>med\<in>set [aspirin, ibuprofen]. searchable med" by simp
  have e: "to_lower_case sample_runtime [] = []"
    by (simp add: sample_simps lower_samples)
  have u: "unitwise_on sample_runtime lower_unit [aspirin, ibuprofen] (lit ''ASP'')"
    by (simp add: unitwise_on_def lowered_by_def medicine_fields sample_simps lower_samples
        unit_lower_samples)
  have f: "filter (matches_query sample_runtime (lit ''ASP'')) [aspirin, ibuprofen] = [aspirin]"
    by (simp add: matches_query_def field_matches_def medicine_fields sample_simps
        lower_samples lit_includes)
  note inst = filteredMedicines_exact[OF h, of sample_runtime "lit ''ASP''" lower_unit]
  from inst[THEN conjunct1]
  have a: "filteredMedicines sample_runtime (JArr [aspirin, ibuprofen]) (lit ''ASP'') = Inr [aspirin]"
    by (simp only: f)
  from inst[THEN conjunct2, THEN conjunct1, THEN mp, OF e]
  have b: "filteredMedicines sample_runtime (JArr [aspirin, ibuprofen]) [] = Inr [aspirin, ibuprofen]" .
  from inst[THEN conjunct2, THEN conjunct2, THEN mp, OF u]
  have c: "filter (matches_folded lower_unit (lit ''ASP'')) [aspirin, ibuprofen] = [aspirin]"
    by (simp only: a sum.inject)
  from s e u a b c show ?thesis by (intro conjI)
qed

text \<open>
  A capital sigma becomes a final sigma at the end of the query and a medial sigma
  inside the name: the name begins with the query, letter for letter, and the filter
  leaves the record out.
\<close>

theorem literal_match_dropped_counterexample:
  "searchable greek_aspirin
   \<and> js_get greek_aspirin ''name'' = JStr greek_name
   \<and> str_includes greek_name greek_query
   \<and> matches_folded lower_unit greek_query greek_aspirin
   \<and> filteredMedicines sample_runtime (JArr [greek_aspirin]) greek_query = Inr []"
proof -
  have s: "searchable greek_aspirin" by (simp add: searchable_def medicine_fields)
  have i: "str_includes greek_name greek_query" by (rule lit_includes)
  have "str_includes (map lower_unit greek_name) (map lower_unit greek_query)"
    by (simp add: greek_name_def greek_query_def lower_unit_def)
  then have m: "matches_folded lower_unit greek_query greek_aspirin"
    by (simp add: matches_folded_def medicine_fields includes_folded)
  have f: "filteredMedicines sample_runtime (JArr [greek_aspirin]) greek_query = Inr []"
    by (simp add: med_matches_def field_includes_eval or_else_def js_nullish_def
        medicine_fields sample_simps lower_samples lit_includes)
       (simp add: greek_aspirin_def)
  from s i m f show ?thesis by (simp add: medicine_fields)
qed

theorem isLowStock_iff_witness:
  "js_get aspirin ''quantity'' = JNum 5
   \<and> numeric_or_absent (js_get aspirin ''reorder_level'')
   \<and> isLowStock sample_runtime aspirin = Inr True
   \<and> js_get ibuprofen ''quantity'' = JNum 40
   \<and> numeric_or_absent (js_get ibuprofen ''reorder_level'')
   \<and> isLowStock sample_runtime ibuprofen = Inr False"
proof -
  have a: "js_get aspirin ''quantity'' = JNum 5"
    "numeric_or_absent (js_get aspirin ''reorder_level'')"
    "js_get aspirin ''reorder_level'' = JNum 0"
    by (simp_all add: medicine_fields)
  have b: "js_get ibuprofen ''quantity'' = JNum 40"
    "numeric_or_absent (js_get ibuprofen ''reorder_level'')"
    "js_get ibuprofen ''reorder_level'' = JNum 20"
    by (simp_all add: medicine_fields)
  from isLowStock_iff[OF a(1) a(2), of sample_runtime]
    isLowStock_iff[OF b(1) b(2), of sample_runtime] a b
  show ?thesis by simp
qed

theorem filteredMedicines_throws_iff_witness:
  "(\<exists>med\<in>set [aspirin, nameless]. reaches_non_string sample_runtime (lit ''asp'') med)
   \<and> (\<exists>med\<in>set [aspirin, nameless]. \<not> is_string (js_get med ''name''))
   \<and> isl (filteredMedicines sample_runtime (JArr [aspirin, nameless]) (lit ''asp''))
   \<and> searchable aspirin \<and> searchable ibuprofen
   \<and> \<not> isl (filteredMedicines sample_runtime (JArr [aspirin, ibuprofen]) (lit ''asp''))"
proof -
  have n: "\<exists>med\<in>set [aspirin, nameless]. \<not> is_string (js_get med ''name'')"
    by (simp add: medicine_fields)
  then have r: "\<exists>med\<in>set [aspirin, nameless]. reaches_non_string sample_runtime (lit ''asp'') med"
    by (auto simp: reaches_non_string_def)
  have s: "searchable aspirin" "searchable ibuprofen"
    by (simp_all add: searchable_def medicine_fields)
  then have h: "\<forall>med\<in>set [aspirin, ibuprofen]. searchable med" by simp
  from filteredMedicines_throws_iff[of sample_runtime "[aspirin, nameless]" "lit ''asp''"] r
  have t: "isl (filteredMedicines sample_runtime (JArr [aspirin, nameless]) (lit ''asp''))"
    by (elim conjE) (rule iffD2)
  from filteredMedicines_throws_iff[of sample_runtime "[aspirin, ibuprofen]" "lit ''asp''"] h
  have u: "\<not> isl (filteredMedicines sample_runtime (JArr [aspirin, ibuprofen]) (lit ''asp''))"
    by (elim conjE) (erule mp)
  from r n t s u show ?thesis by (intro conjI)
qed

text \<open>
  A record without \<^verbatim>\<open>generic_name\<close> whose name contains the query (here the empty
  query of a fresh dashboard): nothing is thrown and the record is kept.
\<close>

theorem missing_field_skipped_counterexample:
  "js_get unlabelled ''generic_name'' = JUndefined
   \<and> filteredMedicines sample_runtime (JArr [unlabelled]) [] = Inr [unlabelled]"
  by (simp add: med_matches_def field_includes_eval or_else_def js_nullish_def
      medicine_fields sample_simps lower_samples str_includes_empty)
     (simp add: unlabelled_def)

lemma lit_samples_nonempty:
  "login_body \<noteq> []" "session_text \<noteq> []" "lit ''t1'' \<noteq> []"
  by (simp_all add: login_body_def session_text_def lit_empty_iff)

lemma sample_bodies:
  "sample_parse login_body =
     Inr (JObj [(lit ''access_token'', JStr (lit ''t1'')), (lit ''user'', ada)])"
  "sample_parse session_text = Inr (session_record (JStr (lit ''t1'')) ada)"
  "sample_parse profile_body = Inr ada"
  "sample_parse denied_body = Inr (JObj [(lit ''detail'', JStr (lit ''Invalid credentials''))])"
  "sample_parse odd_detail_body =
     Inr (JObj [(lit ''detail'', JObj [(lit ''toString'', JNum 1)])])"
  "sample_parse empty_list_body = Inr (JArr [])"
  "sample_parse not_json = Inl (lit ''Unexpected token'')"
  "sample_stringify (session_record (JStr (lit ''t1'')) ada) = session_text"
  by (simp_all add: sample_parse_def sample_stringify_def login_body_def session_text_def
      profile_body_def denied_body_def odd_detail_body_def empty_list_body_def not_json_def
      lit_eq_iff)

lemma sample_responses:
  "fetchWithAuth_response sample_runtime (Responded 200 profile_body) = Inr ada"
  "fetchWithAuth_response sample_runtime (Responded 200 empty_list_body) = Inr (JArr [])"
  "fetchWithAuth_response sample_runtime (Responded 204 []) = Inr JNull"
  by (simp_all add: fetchWithAuth_response_def response_ok_def response_json_def JSON_parse_def
      sample_simps sample_bodies)

lemma sample_dates:
  "to_iso_string sample_runtime chosen_expiry = Some (lit ''2030-01-01T00:00:00.000Z'')"
  by (simp add: sample_runtime_def chosen_expiry_def default_expiry_def lit_eq_iff)

lemma session_record_simps:
  "js_get (session_record t u) ''token'' = t"
  "js_get (session_record t u) ''user'' = u"
  "session_record t u \<noteq> JUndefined"
  "session_record t u \<noteq> JNull"
  by (simp_all add: session_record_def lit_eq_iff)

lemma ada_simps:
  "js_get ada ''full_name'' = JStr (lit ''Ada Lovelace'')"
  "ada \<noteq> JUndefined" "ada \<noteq> JNull" "js_truthy ada"
  by (simp_all add: ada_def)

lemma login_result_simps:
  "js_get (JObj [(lit ''access_token'', JStr (lit ''t1'')), (lit ''user'', ada)]) ''access_token''
     = JStr (lit ''t1'')"
  "js_get (JObj [(lit ''access_token'', JStr (lit ''t1'')), (lit ''user'', ada)]) ''user'' = ada"
  by (simp_all add: lit_eq_iff)

lemma setToken_simps:
  "token (setToken v s) = v"
  "user (setToken v s) = user s"
  "medicines (setToken v s) = medicines s"
  "analytics (setToken v s) = analytics s"
  "sessionStorage (setToken v s) = sessionStorage s"
  "toast (setToken v s) = toast s"
  "timers (setToken v s) = timers s"
  "in_flight (setToken v s) = in_flight s"
  "authMode (setToken v s) = authMode s"
  "authValues (setToken v s) = authValues s"
  "loading (setToken v s) = loading s"
  "medicineForm (setToken v s) = medicineForm s"
  "searchQuery (setToken v s) = searchQuery s"
  by (simp_all add: setToken_def)

lemma issue_string_token:
  "fetchWithAuth_issue rt (JStr t) p s = Inr (s\<lparr>in_flight := in_flight s @ [p]\<rparr>)"
  by (simp add: fetchWithAuth_issue_def gateway_headers_def and_then_def Let_def)

lemma issue_or_log_string_token:
  "issue_or_log rt (JStr t) p s = s\<lparr>in_flight := in_flight s @ [p]\<rparr>"
  by (simp add: issue_or_log_def issue_string_token)

lemma issue_or_log_token: "token (issue_or_log rt tok p s) = token s"
  by (simp add: issue_or_log_def fetchWithAuth_issue_def and_then_def split: sum.splits)

lemma after_render_token: "token (after_render rt prev s) = token s"
  by (simp add: after_render_def Let_def issue_or_log_token)

lemma mount_none: "mount rt d None = initial_app d None"
  by (simp add: mount_def Let_def restore_def initial_app_def after_render_def authenticated_def)

lemmas eval_simps = step_def after_render_def authenticated_def Let_def
  handleAuthSubmit_def auth_settled_def auth_try_def response_ok_def response_json_def
  JSON_parse_def and_then_def js_prop_def js_nullish_def showToast_def signOut_def
  setToken_def profile_settled_def medicines_settled_def analytics_settled_def
  fetchWithAuth_response_def remove_nth_def sample_simps sample_bodies login_result_simps
  issue_or_log_string_token lit_empty_iff lit_eq_iff

lemma signed_in_state:
  "run sample_runtime (mount sample_runtime default_expiry None) signed_in_trace =
     (initial_app default_expiry None)
       \<lparr>authMode := Some Login, token := JStr (lit ''t1''), token_ref := 1, user := ada,
        toast := Some (lit ''Logged in successfully'', Info),
        sessionStorage := Some session_text,
        in_flight := [ProfileRequest (JStr (lit ''t1'')), MedicinesRequest (JStr (lit ''t1'')),
                      AnalyticsRequest (JStr (lit ''t1''))],
        timers := 1\<rparr>"
  by (simp add: run_def signed_in_trace_def mount_none initial_app_def eval_simps)

lemma signed_out_state:
  "run sample_runtime (mount sample_runtime default_expiry None) signed_out_trace =
     (initial_app default_expiry None)
       \<lparr>token_ref := 2, toast := Some (lit ''You have signed out.'', Info),
        in_flight := [ProfileRequest (JStr (lit ''t1'')), MedicinesRequest (JStr (lit ''t1'')),
                      AnalyticsRequest (JStr (lit ''t1''))],
        timers := 2\<rparr>"
proof -
  have "run sample_runtime (mount sample_runtime default_expiry None) signed_out_trace =
      step sample_runtime
        (run sample_runtime (mount sample_runtime default_expiry None) signed_in_trace) SignOut"
    by (simp add: run_def signed_out_trace_def)
  then show ?thesis
    by (simp add: signed_in_state initial_app_def eval_simps)
qed

section \<open>The request gateway\<close>

text \<open>
  Claim C1, as the code has it: for every successful (2xx) response with a status other
  than 204, the gateway parses the body as JSON and resolves to the parsed value; when
  the parse fails the call rejects with the parser's \<^verbatim>\<open>SyntaxError\<close>. The lenient
  \<^verbatim>\<open>safeJson\<close> is applied to the bodies of failed responses only.
\<close>

theorem fetchWithAuth_success_body:
  assumes "response_ok status" and "status \<noteq> 204"
  shows "fetchWithAuth_response rt (Responded status text) =
     (case json_parse rt text of Inl m \<Rightarrow> Inl (SyntaxError m) | Inr v \<Rightarrow> Inr v)"
  using assms by (simp add: fetchWithAuth_response_def response_json_def JSON_parse_def)

theorem fetchWithAuth_success_body_witness:
  "response_ok 200 \<and> (200::nat) \<noteq> 204 \<and>
   fetchWithAuth_response sample_runtime (Responded 200 empty_list_body) = Inr (JArr [])"
proof -
  have a: "response_ok 200" by (simp add: response_ok_def)
  have b: "(200::nat) \<noteq> 204" by simp
  have c: "json_parse sample_runtime empty_list_body = Inr (JArr [])"
    by (simp add: sample_simps sample_bodies)
  from fetchWithAuth_success_body[OF a b, of sample_runtime empty_list_body] a b c
  show ?thesis by simp
qed

text \<open>
  A 200 response whose body is not JSON: the call does not resolve to an empty result,
  it rejects.
\<close>

theorem fetchWithAuth_unparsable_body_counterexample:
  "response_ok 200 \<and> (200::nat) \<noteq> 204
   \<and> json_parse sample_runtime not_json = Inl (lit ''Unexpected token'')
   \<and> fetchWithAuth_response sample_runtime (Responded 200 not_json) =
       Inl (SyntaxError (lit ''Unexpected token''))"
  by (simp add: fetchWithAuth_response_def response_ok_def response_json_def JSON_parse_def
      sample_simps sample_bodies)

lemma gateway_headers_lookup:
  assumes "\<not> js_truthy tok \<or> js_to_string rt tok = Inr t"
  shows "\<exists>hs. gateway_headers rt tok (headers options) = Inr hs
      \<and> (\<forall>k. hs k = (if k = lit ''Authorization'' \<and> js_truthy tok
                       then Some (lit ''Bearer '' @ t) else caller_or_default options k))"
  using assms
  by (auto simp: gateway_headers_def caller_or_default_def and_then_def Let_def map_add_def
      split: option.splits)

text \<open>
  Claim C2, as the code has it: when there is no token, or the token converts to the
  string \<open>t\<close>, the request is built and its headers are the caller's headers over
  \<^verbatim>\<open>Content-Type: application/json\<close>, so the caller wins on \<^verbatim>\<open>Content-Type\<close> and on
  every other name, except that with a token present \<^verbatim>\<open>Authorization\<close> is always
  \<^verbatim>\<open>Bearer t\<close>: it is assigned after the merge and replaces a caller's value. When the
  token is present and its conversion to a string throws, the call throws that error
  and no request is built.
\<close>

theorem gateway_headers_merge:
  "(\<not> js_truthy tok \<or> js_to_string rt tok = Inr t
      \<longrightarrow> (\<exists>r. fetchWithAuth_request rt base tok path options = Inr r
                \<and> url r = base @ path
                \<and> (\<forall>k. request_headers r k =
                       (if k = lit ''Authorization'' \<and> js_truthy tok
                        then Some (lit ''Bearer '' @ t) else caller_or_default options k))))
   \<and> (js_truthy tok \<and> js_to_string rt tok = Inl e
      \<longrightarrow> fetchWithAuth_request rt base tok path options = Inl e)"
proof -
  have a: "\<exists>r. fetchWithAuth_request rt base tok path options = Inr r
                \<and> url r = base @ path
                \<and> (\<forall>k. request_headers r k =
                       (if k = lit ''Authorization'' \<and> js_truthy tok
                        then Some (lit ''Bearer '' @ t) else caller_or_default options k))"
    if "\<not> js_truthy tok \<or> js_to_string rt tok = Inr t"
  proof -
    from gateway_headers_lookup[OF that, of options] obtain hs
      where "gateway_headers rt tok (headers options) = Inr hs"
        and "\<forall>k. hs k = (if k = lit ''Authorization'' \<and> js_truthy tok
                       then Some (lit ''Bearer '' @ t) else caller_or_default options k)"
      by blast
    then show ?thesis by (simp add: fetchWithAuth_request_def and_then_def)
  qed
  have b: "fetchWithAuth_request rt base tok path options = Inl e"
    if "js_truthy tok \<and> js_to_string rt tok = Inl e"
    using that by (simp add: fetchWithAuth_request_def gateway_headers_def and_then_def Let_def)
  from a b show ?thesis by blast
qed

theorem gateway_headers_merge_witness:
  "js_to_string sample_runtime (JStr (lit ''t1'')) = Inr (lit ''t1'')
   \<and> (\<exists>r. fetchWithAuth_request sample_runtime (lit ''https://api.example'') (JStr (lit ''t1''))
             (lit ''/api/medicines'') sample_options = Inr r
          \<and> request_headers r (lit ''Content-Type'') = Some (lit ''text/plain'')
          \<and> request_headers r (lit ''Authorization'') = Some (lit ''Bearer t1'')
          \<and> request_headers r (lit ''X-Trace'') = Some (lit ''1'')
          \<and> request_headers r (lit ''Accept'') = None)
   \<and> js_truthy odd_token
   \<and> js_to_string sample_runtime odd_token
        = Inl (TypeError (lit ''Cannot convert object to primitive value''))
   \<and> fetchWithAuth_request sample_runtime (lit ''https://api.example'') odd_token
        (lit ''/api/medicines'') sample_options
        = Inl (TypeError (lit ''Cannot convert object to primitive value''))"
proof -
  let ?e = "TypeError (lit ''Cannot convert object to primitive value'')"
  have t: "js_to_string sample_runtime (JStr (lit ''t1'')) = Inr (lit ''t1'')" by simp
  have o: "js_truthy odd_token" "js_to_string sample_runtime odd_token = Inl ?e"
    by (simp_all add: odd_token_def raise_fault_def sample_simps sample_fault_message_def)
  note inst1 = gateway_headers_merge[of "JStr (lit ''t1'')" sample_runtime "lit ''t1''"
      "lit ''https://api.example''" "lit ''/api/medicines''" sample_options ?e]
  note inst2 = gateway_headers_merge[of odd_token sample_runtime "lit ''t1''"
      "lit ''https://api.example''" "lit ''/api/medicines''" sample_options ?e]
  from inst1[THEN conjunct1] t obtain r where
    r: "fetchWithAuth_request sample_runtime (lit ''https://api.example'') (JStr (lit ''t1''))
             (lit ''/api/medicines'') sample_options = Inr r"
    and h: "\<forall>k. request_headers r k =
                       (if k = lit ''Authorization'' \<and> js_truthy (JStr (lit ''t1''))
                        then Some (lit ''Bearer '' @ lit ''t1'')
                        else caller_or_default sample_options k)"
    by blast
  have c: "caller_or_default sample_options (lit ''Content-Type'') = Some (lit ''text/plain'')"
    "caller_or_default sample_options (lit ''X-Trace'') = Some (lit ''1'')"
    "caller_or_default sample_options (lit ''Accept'') = None"
    by (simp_all add: caller_or_default_def sample_options_def lit_eq_iff)
  have b: "lit ''Bearer '' @ lit ''t1'' = lit ''Bearer t1''" by (simp add: lit_def)
  from h c b have
    "request_headers r (lit ''Content-Type'') = Some (lit ''text/plain'')"
    "request_headers r (lit ''Authorization'') = Some (lit ''Bearer t1'')"
    "request_headers r (lit ''X-Trace'') = Some (lit ''1'')"
    "request_headers r (lit ''Accept'') = None"
    by (simp_all add: lit_eq_iff lit_empty_iff)
  with r have ex: "\<exists>r. fetchWithAuth_request sample_runtime (lit ''https://api.example'')
             (JStr (lit ''t1'')) (lit ''/api/medicines'') sample_options = Inr r
          \<and> request_headers r (lit ''Content-Type'') = Some (lit ''text/plain'')
          \<and> request_headers r (lit ''Authorization'') = Some (lit ''Bearer t1'')
          \<and> request_headers r (lit ''X-Trace'') = Some (lit ''1'')
          \<and> request_headers r (lit ''Accept'') = None"
    by blast
  from inst2[THEN conjunct2] o
  have th: "fetchWithAuth_request sample_runtime (lit ''https://api.example'') odd_token
        (lit ''/api/medicines'') sample_options = Inl ?e"
    by blast
  from t ex o th show ?thesis by (intro conjI)
qed

text \<open>A caller's \<^verbatim>\<open>Authorization\<close> header does not survive when a token is present.\<close>

theorem gateway_authorization_counterexample:
  "(case fetchWithAuth_request sample_runtime (lit ''https://api.example'') (JStr (lit ''t1''))
           (lit ''/api/medicines'') basic_options of
      Inl e \<Rightarrow> False
    | Inr r \<Rightarrow> request_headers r (lit ''Authorization'') = Some (lit ''Bearer t1'')
             \<and> request_headers r (lit ''Authorization'') \<noteq> Some (lit ''Basic abc''))"
  by (simp add: fetchWithAuth_request_def gateway_headers_def and_then_def Let_def
      basic_options_def lit_empty_iff)
     (simp add: lit_def)

section \<open>The session\<close>

lemma restore_try_session:
  assumes "json_parse rt stored = Inr (session_record t u)" and "js_truthy t"
  shows "restore_try rt stored s = Inr ((setToken t s)\<lparr>user := js_or u JNull\<rparr>)"
  using assms
  by (simp add: restore_try_def JSON_parse_def and_then_def js_prop_def session_record_simps
      js_nullish_def)

lemma restore_session:
  assumes "sessionStorage s = Some stored" and "stored \<noteq> []"
    and "json_parse rt stored = Inr (session_record t u)" and "js_truthy t"
  shows "restore rt s = (setToken t s)\<lparr>user := js_or u JNull\<rparr>"
  using assms by (simp add: restore_def restore_try_session)

lemma js_or_null: "u = JNull \<or> js_truthy u \<Longrightarrow> js_or u JNull = u"
  by (auto simp: js_or_def)

lemma truthy_get_not_nullish: "js_truthy (js_get v k) \<Longrightarrow> \<not> js_nullish v"
  by (auto simp: js_nullish_def)

lemma auth_try_success:
  assumes "response_ok status" and "json_parse rt text = Inr result" and "\<not> js_nullish result"
  shows "auth_try rt mode (Responded status text) s =
     Inr ((showToast
             (if mode = Some Register then lit ''Registration successful''
              else lit ''Logged in successfully'') Info
             ((setToken (js_get result ''access_token'') s)
                \<lparr>user := js_get result ''user'',
                 sessionStorage := Some (json_stringify rt
                   (session_record (js_get result ''access_token'') (js_get result ''user'')))\<rparr>))
          \<lparr>authValues := (authValues s)\<lparr>password := []\<rparr>\<rparr>)"
  using assms
  by (simp add: auth_try_def response_json_def JSON_parse_def and_then_def js_prop_def)

lemma server_detail_eq: "js_opt_get (safeJson rt text) ''detail'' = server_detail rt text"
proof (cases "json_parse rt text")
  case (Inl m)
  then show ?thesis
    by (simp add: safeJson_def response_json_def JSON_parse_def js_opt_get_def js_nullish_def
        server_detail_def)
next
  case (Inr v)
  then show ?thesis
    by (cases v)
       (simp_all add: safeJson_def response_json_def JSON_parse_def js_opt_get_def
          js_nullish_def server_detail_def split: option.splits)
qed

lemma throw_Error_notice:
  "throw_Error rt (js_or d (JStr (lit ''Authentication failed''))) = Inl e
   \<Longrightarrow> message e = failure_notice rt d"
  by (auto simp: throw_Error_def js_or_def failure_notice_def split: sum.splits if_splits)

lemma throw_Error_isl: "\<exists>e. throw_Error rt v = Inl e"
  by (simp add: throw_Error_def split: sum.splits)

lemma auth_settled_not_ok:
  assumes "\<not> response_ok status"
  shows "auth_settled rt mode (Responded status text) s =
     (showToast (failure_notice rt (server_detail rt text)) Failure s)\<lparr>loading := False\<rparr>"
proof -
  let ?v = "js_or (server_detail rt text) (JStr (lit ''Authentication failed''))"
  obtain e where e: "throw_Error rt ?v = (Inl e :: exn + app)"
    using throw_Error_isl by blast
  then have "message e = failure_notice rt (server_detail rt text)"
    by (rule throw_Error_notice)
  with assms e show ?thesis
    by (simp add: auth_settled_def auth_try_def Let_def server_detail_eq)
qed

lemma auth_try_rejected: "auth_try rt mode (Rejected m) s = Inl (TypeError m)"
  by (simp add: auth_try_def)

text \<open>
  Claim C5: a successful sign-in whose response carries a truthy token and a user that
  is a profile object (or \<^verbatim>\<open>null\<close>) adopts and persists that pair, and the startup
  restore of a fresh page over the persisted record yields the same token and user,
  provided the JSON codec reads back what it wrote. With no persisted record, and with
  a record on which the body of the \<^verbatim>\<open>try\<close> throws (an unparsable text throws a
  \<^verbatim>\<open>SyntaxError\<close> there), restore returns the unauthenticated initial state: empty
  token, no user, nothing raised.
\<close>

theorem session_round_trip:
  "(response_ok status \<and> json_parse rt text = Inr result
      \<and> js_truthy (js_get result ''access_token'')
      \<and> (js_get result ''user'' = JNull \<or> js_truthy (js_get result ''user''))
      \<and> codec_faithful rt
           (session_record (js_get result ''access_token'') (js_get result ''user''))
    \<longrightarrow> (let s1 = auth_settled rt mode (Responded status text) s;
             s2 = restore rt (initial_app d (sessionStorage s1))
         in token s1 = js_get result ''access_token'' \<and> user s1 = js_get result ''user''
            \<and> token s2 = token s1 \<and> user s2 = user s1))
   \<and> restore rt (initial_app d None) = initial_app d None
   \<and> (restore_try rt stored (initial_app d (Some stored)) = Inl e
        \<longrightarrow> restore rt (initial_app d (Some stored)) = initial_app d (Some stored))
   \<and> (json_parse rt stored = Inl m
        \<longrightarrow> restore_try rt stored (initial_app d (Some stored)) = Inl (SyntaxError m))
   \<and> token (initial_app d st) = JStr [] \<and> user (initial_app d st) = JNull"
proof -
  have a: "restore rt (initial_app d None) = initial_app d None"
    by (simp add: restore_def initial_app_def)
  have b: "restore_try rt stored (initial_app d (Some stored)) = Inl e
        \<longrightarrow> restore rt (initial_app d (Some stored)) = initial_app d (Some stored)"
    by (simp add: restore_def initial_app_def)
  have c: "json_parse rt stored = Inl m
        \<longrightarrow> restore_try rt stored (initial_app d (Some stored)) = Inl (SyntaxError m)"
    by (simp add: restore_try_def JSON_parse_def and_then_def)
  have e: "token (initial_app d st) = JStr [] \<and> user (initial_app d st) = JNull"
    by (simp add: initial_app_def)
  have r: "let s1 = auth_settled rt mode (Responded status text) s;
             s2 = restore rt (initial_app d (sessionStorage s1))
         in token s1 = js_get result ''access_token'' \<and> user s1 = js_get result ''user''
            \<and> token s2 = token s1 \<and> user s2 = user s1"
    if ok: "response_ok status" and p: "json_parse rt text = Inr result"
      and t: "js_truthy (js_get result ''access_token'')"
      and u: "js_get result ''user'' = JNull \<or> js_truthy (js_get result ''user'')"
      and cf: "codec_faithful rt
                 (session_record (js_get result ''access_token'') (js_get result ''user''))"
  proof -
    let ?t = "js_get result ''access_token''" and ?u = "js_get result ''user''"
    let ?txt = "json_stringify rt (session_record ?t ?u)"
    have nn: "\<not> js_nullish result" using t by (rule truthy_get_not_nullish)
    have s1: "token (auth_settled rt mode (Responded status text) s) = ?t"
      "user (auth_settled rt mode (Responded status text) s) = ?u"
      "sessionStorage (auth_settled rt mode (Responded status text) s) = Some ?txt"
      by (simp_all add: auth_settled_def auth_try_success[OF ok p nn] showToast_def
          setToken_simps)
    have st: "sessionStorage (initial_app d (Some ?txt)) = Some ?txt"
      by (simp add: initial_app_def)
    from cf have ne: "?txt \<noteq> []" and rt: "json_parse rt ?txt = Inr (session_record ?t ?u)"
      by (simp_all add: codec_faithful_def)
    have "restore rt (initial_app d (Some ?txt)) =
        (setToken ?t (initial_app d (Some ?txt)))\<lparr>user := js_or ?u JNull\<rparr>"
      by (rule restore_session[OF st ne rt t])
    then have s2: "token (restore rt (initial_app d (Some ?txt))) = ?t"
      "user (restore rt (initial_app d (Some ?txt))) = ?u"
      using js_or_null[OF u] by (simp_all add: setToken_simps)
    show ?thesis using s1 s2 by (simp add: Let_def)
  qed
  from a b c e r show ?thesis by blast
qed

theorem session_round_trip_witness:
  "(let result = JObj [(lit ''access_token'', JStr (lit ''t1'')), (lit ''user'', ada)];
        s1 = auth_settled sample_runtime (Some Login) (Responded 200 login_body)
               (initial_app default_expiry None);
        s2 = restore sample_runtime (initial_app default_expiry (sessionStorage s1))
    in response_ok 200 \<and> json_parse sample_runtime login_body = Inr result
       \<and> js_truthy (js_get result ''access_token'') \<and> js_truthy (js_get result ''user'')
       \<and> codec_faithful sample_runtime
            (session_record (js_get result ''access_token'') (js_get result ''user''))
       \<and> token s2 = JStr (lit ''t1'') \<and> user s2 = ada
       \<and> json_parse sample_runtime not_json = Inl (lit ''Unexpected token'')
       \<and> restore_try sample_runtime not_json (initial_app default_expiry (Some not_json))
            = Inl (SyntaxError (lit ''Unexpected token''))
       \<and> restore sample_runtime (initial_app default_expiry (Some not_json))
            = initial_app default_expiry (Some not_json))"
proof -
  let ?result = "JObj [(lit ''access_token'', JStr (lit ''t1'')), (lit ''user'', ada)]"
  let ?init = "initial_app default_expiry None"
  have ok: "response_ok 200" by (simp add: response_ok_def)
  have p: "json_parse sample_runtime login_body = Inr ?result"
    by (simp add: sample_simps sample_bodies)
  have g: "js_get ?result ''access_token'' = JStr (lit ''t1'')" "js_get ?result ''user'' = ada"
    by (rule login_result_simps)+
  have t: "js_truthy (js_get ?result ''access_token'')" "js_truthy (js_get ?result ''user'')"
    unfolding g by (simp_all add: ada_simps lit_empty_iff)
  have cf: "codec_faithful sample_runtime
      (session_record (js_get ?result ''access_token'') (js_get ?result ''user''))"
    unfolding g by (simp add: codec_faithful_def sample_simps sample_bodies lit_samples_nonempty)
  have j: "json_parse sample_runtime not_json = Inl (lit ''Unexpected token'')"
    by (simp add: sample_simps sample_bodies)
  note inst = session_round_trip[of "200" sample_runtime login_body ?result "Some Login" ?init
      default_expiry not_json "SyntaxError (lit ''Unexpected token'')" "lit ''Unexpected token''"
      None]
  from inst ok p t cf j show ?thesis by (simp add: Let_def lit_eq_iff)
qed

text \<open>
  Claim C6, as the code has it: a failed sign-in or registration leaves the token, the
  user, the cached data and the persisted record untouched. After a non-2xx response the
  notice is "Authentication failed" when the body does not parse or has no truthy
  \<^verbatim>\<open>detail\<close>; it is the \<^verbatim>\<open>detail\<close> itself when that is a non-empty string; and for
  any other truthy \<^verbatim>\<open>detail\<close> it is what \<^verbatim>\<open>String\<close> makes of it, or the message of
  the \<^verbatim>\<open>TypeError\<close> that this conversion throws. After a network error the notice is
  the message of the rejection itself.
\<close>

theorem failed_sign_in_leaves_session:
  "(\<not> response_ok status \<longrightarrow>
      (let s' = auth_settled rt mode (Responded status text) s in
         token s' = token s \<and> user s' = user s \<and> sessionStorage s' = sessionStorage s
         \<and> medicines s' = medicines s \<and> analytics s' = analytics s
         \<and> toast s' = Some (failure_notice rt (server_detail rt text), Failure)))
   \<and> (let s' = auth_settled rt mode (Rejected m) s in
         token s' = token s \<and> user s' = user s \<and> sessionStorage s' = sessionStorage s
         \<and> medicines s' = medicines s \<and> analytics s' = analytics s
         \<and> toast s' = Some (m, Failure))
   \<and> (\<not> response_ok status \<and> json_parse rt text = Inl m
        \<longrightarrow> toast (auth_settled rt mode (Responded status text) s)
              = Some (lit ''Authentication failed'', Failure))
   \<and> (\<not> response_ok status \<and> json_parse rt text = Inr (JObj kvs)
        \<and> map_of kvs (lit ''detail'') = None
        \<longrightarrow> toast (auth_settled rt mode (Responded status text) s)
              = Some (lit ''Authentication failed'', Failure))
   \<and> (\<not> response_ok status \<and> json_parse rt text = Inr (JObj kvs)
        \<and> map_of kvs (lit ''detail'') = Some (JStr d) \<and> d \<noteq> []
        \<longrightarrow> toast (auth_settled rt mode (Responded status text) s) = Some (d, Failure))"
proof -
  have a: "let s' = auth_settled rt mode (Responded status text) s in
         token s' = token s \<and> user s' = user s \<and> sessionStorage s' = sessionStorage s
         \<and> medicines s' = medicines s \<and> analytics s' = analytics s
         \<and> toast s' = Some (failure_notice rt (server_detail rt text), Failure)"
    if "\<not> response_ok status"
    by (simp add: auth_settled_not_ok[OF that] showToast_def Let_def)
  have b: "let s' = auth_settled rt mode (Rejected m) s in
         token s' = token s \<and> user s' = user s \<and> sessionStorage s' = sessionStorage s
         \<and> medicines s' = medicines s \<and> analytics s' = analytics s
         \<and> toast s' = Some (m, Failure)"
    by (simp add: auth_settled_def auth_try_rejected showToast_def Let_def)
  have c: "toast (auth_settled rt mode (Responded status text) s)
              = Some (lit ''Authentication failed'', Failure)"
    if "\<not> response_ok status \<and> json_parse rt text = Inl m"
    using that
    by (simp add: auth_settled_not_ok showToast_def server_detail_def failure_notice_def)
  have d: "toast (auth_settled rt mode (Responded status text) s)
              = Some (lit ''Authentication failed'', Failure)"
    if "\<not> response_ok status \<and> json_parse rt text = Inr (JObj kvs)
        \<and> map_of kvs (lit ''detail'') = None"
    using that
    by (simp add: auth_settled_not_ok showToast_def server_detail_def failure_notice_def)
  have e: "toast (auth_settled rt mode (Responded status text) s) = Some (d, Failure)"
    if "\<not> response_ok status \<and> json_parse rt text = Inr (JObj kvs)
        \<and> map_of kvs (lit ''detail'') = Some (JStr d) \<and> d \<noteq> []"
    using that
    by (simp add: auth_settled_not_ok showToast_def server_detail_def failure_notice_def)
  from a b c d e show ?thesis by blast
qed

theorem failed_sign_in_leaves_session_witness:
  "\<not> response_ok 401
   \<and> json_parse sample_runtime not_json = Inl (lit ''Unexpected token'')
   \<and> toast (auth_settled sample_runtime (Some Login) (Responded 401 not_json)
              (initial_app default_expiry None)) = Some (lit ''Authentication failed'', Failure)
   \<and> json_parse sample_runtime denied_body
        = Inr (JObj [(lit ''detail'', JStr (lit ''Invalid credentials''))])
   \<and> (let s = run sample_runtime (mount sample_runtime default_expiry None) signed_in_trace;
          s' = auth_settled sample_runtime (Some Login) (Responded 401 denied_body) s
      in token s' = JStr (lit ''t1'') \<and> user s' = ada \<and> sessionStorage s' = sessionStorage s
         \<and> toast s' = Some (lit ''Invalid credentials'', Failure))
   \<and> toast (auth_settled sample_runtime (Some Login) (Responded 401 odd_detail_body)
              (initial_app default_expiry None))
        = Some (lit ''Cannot convert object to primitive value'', Failure)"
proof -
  let ?s = "run sample_runtime (mount sample_runtime default_expiry None) signed_in_trace"
  let ?init = "initial_app default_expiry None"
  let ?kvs = "[(lit ''detail'', JStr (lit ''Invalid credentials''))]"
  have n: "\<not> response_ok 401" by (simp add: response_ok_def)
  have j: "json_parse sample_runtime not_json = Inl (lit ''Unexpected token'')"
    by (simp add: sample_simps sample_bodies)
  have p: "json_parse sample_runtime denied_body = Inr (JObj ?kvs)"
    by (simp add: sample_simps sample_bodies)
  have d: "map_of ?kvs (lit ''detail'') = Some (JStr (lit ''Invalid credentials''))"
    "lit ''Invalid credentials'' \<noteq> []"
    by (simp_all add: lit_empty_iff)
  have o: "failure_notice sample_runtime (server_detail sample_runtime odd_detail_body)
      = lit ''Cannot convert object to primitive value''"
    by (simp add: server_detail_def failure_notice_def sample_simps sample_bodies
        raise_fault_def sample_fault_message_def)
  have s: "token ?s = JStr (lit ''t1'')" "user ?s = ada"
    unfolding signed_in_state by simp_all
  note i1 = failed_sign_in_leaves_session[of "401" sample_runtime "Some Login" not_json ?init
      "lit ''Unexpected token''" "[]" "[]"]
  note i2 = failed_sign_in_leaves_session[of "401" sample_runtime "Some Login" denied_body ?s
      "[]" ?kvs "lit ''Invalid credentials''"]
  note i3 = failed_sign_in_leaves_session[of "401" sample_runtime "Some Login" odd_detail_body
      ?init "[]" "[]" "[]"]
  from i1 n j have a: "toast (auth_settled sample_runtime (Some Login) (Responded 401 not_json) ?init)
      = Some (lit ''Authentication failed'', Failure)"
    by blast
  from i2[THEN conjunct1, THEN mp, OF n] s
  have f: "token (auth_settled sample_runtime (Some Login) (Responded 401 denied_body) ?s)
        = JStr (lit ''t1'')"
    "user (auth_settled sample_runtime (Some Login) (Responded 401 denied_body) ?s) = ada"
    "sessionStorage (auth_settled sample_runtime (Some Login) (Responded 401 denied_body) ?s)
        = sessionStorage ?s"
    by (simp_all add: Let_def)
  from n p d have pre: "\<not> response_ok 401 \<and> json_parse sample_runtime denied_body = Inr (JObj ?kvs)
        \<and> map_of ?kvs (lit ''detail'') = Some (JStr (lit ''Invalid credentials''))
        \<and> lit ''Invalid credentials'' \<noteq> []"
    by (intro conjI)
  note g = i2[THEN conjunct2, THEN conjunct2, THEN conjunct2, THEN conjunct2, THEN mp, OF pre]
  from i3 n o have c: "toast (auth_settled sample_runtime (Some Login)
        (Responded 401 odd_detail_body) ?init)
        = Some (lit ''Cannot convert object to primitive value'', Failure)"
    by (simp add: Let_def)
  from n j a p f g c show ?thesis unfolding Let_def by (intro conjI)
qed

text \<open>
  A network error: no server message exists, and the notice is not the generic
  "Authentication failed" but the browser's message.
\<close>

theorem network_error_notice_counterexample:
  "(let s' = auth_settled sample_runtime (Some Login) (Rejected (lit ''Failed to fetch''))
               (initial_app default_expiry None)
    in toast s' = Some (lit ''Failed to fetch'', Failure)
       \<and> toast s' \<noteq> Some (lit ''Authentication failed'', Failure))"
  by (simp add: auth_settled_def auth_try_def showToast_def Let_def lit_eq_iff)

subsection \<open>Signing out\<close>

lemma issue_token:
  "fetchWithAuth_issue rt tok p s = Inr s' \<Longrightarrow> token s' = token s"
  by (auto simp: fetchWithAuth_issue_def and_then_def split: sum.splits)

lemma create_settled_token: "token (create_settled rt tok res s) = token s"
  by (auto simp: create_settled_def showToast_def Let_def fetchWithAuth_issue_def and_then_def
      split: sum.splits)

lemma handleCreateMedicine_token: "token (handleCreateMedicine rt s) = token s"
  by (auto simp: handleCreateMedicine_def showToast_def fetchWithAuth_issue_def and_then_def
      split: sum.splits option.splits)

lemma handle_keeps_token:
  assumes "\<not> authenticated s" and "\<not> settles_sign_in s e"
  shows "token (handle rt e s) = token s"
proof (cases e)
  case (Settle i res)
  show ?thesis
  proof (cases "i < length (in_flight s)")
    case True
    with assms(2) Settle show ?thesis
      by (cases "in_flight s ! i")
         (simp_all add: profile_settled_def medicines_settled_def analytics_settled_def
            create_settled_token refetch_settled_def showToast_def split: sum.splits)
  next
    case False
    with Settle show ?thesis by simp
  qed
qed (use assms in \<open>simp_all add: handleAuthChange_def handleAuthSubmit_def toast_timeout_def\<close>)

lemma step_stays_signed_out:
  "\<not> authenticated s \<Longrightarrow> \<not> settles_sign_in s e \<Longrightarrow> \<not> authenticated (step rt s e)"
  using handle_keeps_token[of s e rt]
  by (simp add: step_def authenticated_def after_render_token)

lemma quiet_run_stays_signed_out:
  "\<not> authenticated s \<Longrightarrow> quiet rt s es \<Longrightarrow> \<not> authenticated (run rt s es)"
proof (induction es arbitrary: s)
  case Nil
  then show ?case by (simp add: run_def)
next
  case (Cons e es)
  from Cons.prems have "\<not> authenticated (step rt s e)" and "quiet rt (step rt s e) es"
    by (simp_all add: step_stays_signed_out)
  then have "\<not> authenticated (run rt (step rt s e) es)" by (rule Cons.IH)
  then show ?case by (simp add: run_def)
qed

text \<open>
  Claim C7, as the code has it: \<^verbatim>\<open>signOut\<close> is one step that empties the token, the
  user, the medicine list and the analytics snapshot, removes the persisted record and
  shows the informational notice "You have signed out."; the render that follows is
  unauthenticated, and so is every later render of the same page for as long as no
  response to a sign-in request arrives. Sign-out cancels nothing that is in flight,
  so neither the removal of the record nor the unauthenticated state is final.
\<close>

theorem signOut_clears_session:
  "(let s' = signOut s in
      token s' = JStr [] \<and> user s' = JNull \<and> medicines s' = JArr [] \<and> analytics s' = JNull
      \<and> sessionStorage s' = None \<and> toast s' = Some (lit ''You have signed out.'', Info)
      \<and> \<not> authenticated s')
   \<and> \<not> authenticated (step rt s SignOut)
   \<and> (quiet rt (step rt s SignOut) es \<longrightarrow> \<not> authenticated (run rt (step rt s SignOut) es))"
proof -
  have a: "\<not> authenticated (step rt s SignOut)"
    by (simp add: signOut_def showToast_def authenticated_def step_def after_render_token
        setToken_simps)
  show ?thesis
    using a quiet_run_stays_signed_out[OF a]
    by (simp add: signOut_def showToast_def authenticated_def Let_def setToken_simps)
qed

theorem signOut_clears_session_witness:
  "(let s = run sample_runtime (mount sample_runtime default_expiry None) signed_in_trace;
        es = [Settle 1 (Responded 200 empty_list_body), ToastTimeout]
    in quiet sample_runtime (step sample_runtime s SignOut) es
       \<and> \<not> authenticated (run sample_runtime (step sample_runtime s SignOut) es))"
proof -
  let ?s = "run sample_runtime (mount sample_runtime default_expiry None) signed_in_trace"
  let ?es = "[Settle 1 (Responded 200 empty_list_body), ToastTimeout]"
  have q: "quiet sample_runtime (step sample_runtime ?s SignOut) ?es"
    by (simp add: signed_in_state initial_app_def eval_simps)
  from signOut_clears_session[of ?s sample_runtime ?es] q show ?thesis by (simp add: Let_def)
qed

text \<open>
  After sign-out the record is gone; the profile response that arrives next writes it
  back, and the next page load is authenticated under the token that was signed out.
  And when the sign-in form was submitted twice, the second response, arriving after
  the sign-out, authenticates the page again.
\<close>

theorem sign_out_undone_counterexample:
  "(let s1 = run sample_runtime (mount sample_runtime default_expiry None) signed_out_trace;
        s2 = step sample_runtime s1 (Settle 0 (Responded 200 profile_body));
        s3 = mount sample_runtime default_expiry (sessionStorage s2)
    in \<not> authenticated s1 \<and> sessionStorage s1 = None
       \<and> \<not> authenticated s2 \<and> sessionStorage s2 = Some session_text
       \<and> authenticated s3)
   \<and> authenticated
        (run sample_runtime (mount sample_runtime default_expiry None) stale_sign_in_trace)"
proof -
  have a: "authenticated
        (run sample_runtime (mount sample_runtime default_expiry None) stale_sign_in_trace)"
    by (simp add: run_def stale_sign_in_trace_def mount_none initial_app_def eval_simps)
  have b: "let s1 = run sample_runtime (mount sample_runtime default_expiry None) signed_out_trace;
        s2 = step sample_runtime s1 (Settle 0 (Responded 200 profile_body));
        s3 = mount sample_runtime default_expiry (sessionStorage s2)
    in \<not> authenticated s1 \<and> sessionStorage s1 = None
       \<and> \<not> authenticated s2 \<and> sessionStorage s2 = Some session_text
       \<and> authenticated s3"
    unfolding signed_out_state
    by (simp add: initial_app_def eval_simps mount_def restore_def
        restore_try_def session_record_simps lit_samples_nonempty)
  from b a show ?thesis by (rule conjI)
qed

subsection \<open>Responses that arrive late\<close>

lemma data_settled_applied:
  assumes "fetchWithAuth_response rt res = Inr v"
  shows "profile_settled rt tok res s =
           s\<lparr>user := v, sessionStorage := Some (json_stringify rt (session_record tok v))\<rparr>"
    and "medicines_settled rt res s = s\<lparr>medicines := v\<rparr>"
    and "analytics_settled rt res s = s\<lparr>analytics := v\<rparr>"
  using assms by (simp_all add: profile_settled_def medicines_settled_def analytics_settled_def)

text \<open>
  Claim C8, as the code has it: the response handlers carry no guard. A profile,
  medicine-list or analytics response that resolves successfully is applied to the
  state as it is then, whatever the token is then: the profile replaces the user and
  the persisted record is rewritten under the token the request was issued with, the
  list and the snapshot replace the cached ones. The handlers never write the token.
\<close>

theorem late_response_applied:
  assumes "fetchWithAuth_response rt res = Inr v"
  shows "(let s' = settle rt (ProfileRequest tok) res s in
            user s' = v
            \<and> sessionStorage s' = Some (json_stringify rt (session_record tok v))
            \<and> token s' = token s)
       \<and> (let s' = settle rt (MedicinesRequest tok) res s in
            medicines s' = v \<and> token s' = token s)
       \<and> (let s' = settle rt (AnalyticsRequest tok) res s in
            analytics s' = v \<and> token s' = token s)"
  by (simp add: data_settled_applied[OF assms] Let_def)

theorem late_response_applied_witness:
  "(let res = Responded 200 profile_body;
        s = signOut
              (run sample_runtime (mount sample_runtime default_expiry None) signed_in_trace);
        s' = settle sample_runtime (ProfileRequest (JStr (lit ''t1''))) res s
    in fetchWithAuth_response sample_runtime res = Inr ada
       \<and> token s = JStr [] \<and> token s' = JStr [] \<and> user s' = ada
       \<and> sessionStorage s' = Some session_text)"
proof -
  let ?res = "Responded 200 profile_body"
  let ?s = "signOut
      (run sample_runtime (mount sample_runtime default_expiry None) signed_in_trace)"
  have r: "fetchWithAuth_response sample_runtime ?res = Inr ada"
    by (rule sample_responses)
  have t: "token ?s = JStr []" by (simp add: signOut_def showToast_def setToken_simps)
  from late_response_applied[OF r, of "JStr (lit ''t1'')" ?s] r t show ?thesis
    by (simp add: Let_def sample_simps sample_bodies)
qed

text \<open>
  Sign in, sign out, and only then receive the profile: the application is
  unauthenticated, yet it holds the profile of the session that was signed out, greets
  that user on the landing page, and has written the old session back to storage, so
  that the next page load restores it.
\<close>

theorem late_profile_counterexample:
  "(let s = run sample_runtime (mount sample_runtime default_expiry None) late_profile_trace in
      \<not> authenticated s \<and> user s = ada
      \<and> sessionStorage s = Some session_text
      \<and> greeting sample_runtime (user s) = Inr (lit ''Hey, Ada'')
      \<and> token (mount sample_runtime default_expiry (sessionStorage s)) = JStr (lit ''t1''))"
proof -
  have "run sample_runtime (mount sample_runtime default_expiry None) late_profile_trace =
      step sample_runtime
        (run sample_runtime (mount sample_runtime default_expiry None) signed_out_trace)
        (Settle 0 (Responded 200 profile_body))"
    by (simp add: run_def late_profile_trace_def)
  moreover have "takeWhile (\<lambda>c. c \<noteq> 32) (lit ''Ada Lovelace'') = lit ''Ada''"
    by (simp add: lit_def)
  moreover have "lit ''Hey, '' @ lit ''Ada'' = lit ''Hey, Ada''"
    by (simp add: lit_def)
  ultimately show ?thesis
    unfolding signed_out_state
    by (simp add: initial_app_def eval_simps mount_def restore_def
        restore_try_def session_record_simps ada_simps greeting_def js_opt_get_def js_or_def
        lit_samples_nonempty)
qed

section \<open>The create-medicine form\<close>

lemma form_filled:
  "foldl (step sample_runtime)
     (run sample_runtime (mount sample_runtime default_expiry None) signed_in_trace)
     [MedicineChange ''name'' (lit ''Aspirin''), MedicineChange ''unit'' (lit ''tablets''),
      MedicineChange ''expiry_date'' chosen_expiry]
   = (run sample_runtime (mount sample_runtime default_expiry None) signed_in_trace)
       \<lparr>medicineForm := filled_form\<rparr>"
  unfolding signed_in_state
  by (simp add: initial_app_def step_def after_render_def authenticated_def
      Let_def handleMedicineChange_def filled_form_def lit_empty_iff)

lemma create_issued:
  "step sample_runtime
     ((run sample_runtime (mount sample_runtime default_expiry None) signed_in_trace)
       \<lparr>medicineForm := filled_form\<rparr>)
     CreateMedicine
   = (run sample_runtime (mount sample_runtime default_expiry None) signed_in_trace)
       \<lparr>medicineForm := filled_form,
        in_flight := [ProfileRequest (JStr (lit ''t1'')), MedicinesRequest (JStr (lit ''t1'')),
                      AnalyticsRequest (JStr (lit ''t1'')), CreateRequest (JStr (lit ''t1''))]\<rparr>"
  unfolding signed_in_state
  by (simp add: initial_app_def step_def after_render_def authenticated_def
      Let_def handleCreateMedicine_def sample_dates filled_form_def issue_string_token
      lit_empty_iff)

lemma create_posted:
  "step sample_runtime
     ((run sample_runtime (mount sample_runtime default_expiry None) signed_in_trace)
       \<lparr>medicineForm := filled_form,
        in_flight := [ProfileRequest (JStr (lit ''t1'')), MedicinesRequest (JStr (lit ''t1'')),
                      AnalyticsRequest (JStr (lit ''t1'')), CreateRequest (JStr (lit ''t1''))]\<rparr>)
     (Settle 3 (Responded 204 []))
   = (run sample_runtime (mount sample_runtime default_expiry None) signed_in_trace)
       \<lparr>medicineForm := filled_form,
        toast := Some (lit ''Medicine added'', Info), timers := 2,
        in_flight := [ProfileRequest (JStr (lit ''t1'')), MedicinesRequest (JStr (lit ''t1'')),
                      AnalyticsRequest (JStr (lit ''t1'')), RefetchRequest (JStr (lit ''t1''))]\<rparr>"
  unfolding signed_in_state
  by (simp add: initial_app_def step_def after_render_def authenticated_def
      Let_def create_settled_def showToast_def remove_nth_def sample_responses
      issue_string_token lit_empty_iff)

lemma create_refetched:
  "step sample_runtime
     ((run sample_runtime (mount sample_runtime default_expiry None) signed_in_trace)
       \<lparr>medicineForm := filled_form,
        toast := Some (lit ''Medicine added'', Info), timers := 2,
        in_flight := [ProfileRequest (JStr (lit ''t1'')), MedicinesRequest (JStr (lit ''t1'')),
                      AnalyticsRequest (JStr (lit ''t1'')), RefetchRequest (JStr (lit ''t1''))]\<rparr>)
     (Settle 3 (Responded 200 empty_list_body))
   = (run sample_runtime (mount sample_runtime default_expiry None) signed_in_trace)
       \<lparr>medicineForm := reset_form filled_form,
        toast := Some (lit ''Medicine added'', Info), timers := 2, medicines := JArr [],
        in_flight := [ProfileRequest (JStr (lit ''t1'')), MedicinesRequest (JStr (lit ''t1'')),
                      AnalyticsRequest (JStr (lit ''t1''))]\<rparr>"
  unfolding signed_in_state
  by (simp add: initial_app_def step_def after_render_def
      authenticated_def Let_def refetch_settled_def remove_nth_def
      sample_responses lit_empty_iff)

text \<open>
  Claim C9, as the code has it: when the POST of a create-medicine submission and the
  list request that follows it have both succeeded, ten fields of the form are reset
  (the text fields \<^verbatim>\<open>name\<close>, \<^verbatim>\<open>generic_name\<close>, \<^verbatim>\<open>category\<close>, \<^verbatim>\<open>manufacturer\<close>,
  \<^verbatim>\<open>batch_number\<close>, \<^verbatim>\<open>location\<close>, \<^verbatim>\<open>description\<close> to the empty string, \<^verbatim>\<open>quantity\<close> to 0,
  \<^verbatim>\<open>reorder_level\<close> to 10, \<^verbatim>\<open>unit_price\<close> to 0), while \<^verbatim>\<open>unit\<close> and \<^verbatim>\<open>expiry_date\<close>
  keep the values the form had.
\<close>

theorem create_resets_form_fields:
  assumes "fetchWithAuth_response rt res = Inr items"
  shows "let current = medicineForm s; form = medicineForm (refetch_settled rt res s) in
     name form = [] \<and> generic_name form = [] \<and> category form = []
     \<and> manufacturer form = [] \<and> quantity form = JNum 0 \<and> reorder_level form = JNum 10
     \<and> unit_price form = JNum 0 \<and> batch_number form = [] \<and> location form = []
     \<and> description form = []
     \<and> unit form = unit current \<and> expiry_date form = expiry_date current"
  using assms by (simp add: refetch_settled_def reset_form_def Let_def)

theorem create_resets_form_fields_witness:
  "(let s = (initial_app default_expiry None)\<lparr>medicineForm := filled_form\<rparr>;
        form = medicineForm (refetch_settled sample_runtime (Responded 200 empty_list_body) s)
    in fetchWithAuth_response sample_runtime (Responded 200 empty_list_body) = Inr (JArr [])
       \<and> name form = [] \<and> quantity form = JNum 0 \<and> reorder_level form = JNum 10
       \<and> unit form = lit ''tablets'' \<and> expiry_date form = chosen_expiry)"
proof -
  let ?s = "(initial_app default_expiry None)\<lparr>medicineForm := filled_form\<rparr>"
  have r: "fetchWithAuth_response sample_runtime (Responded 200 empty_list_body) = Inr (JArr [])"
    by (rule sample_responses)
  from create_resets_form_fields[OF r, of ?s] r show ?thesis
    by (simp add: Let_def filled_form_def)
qed

text \<open>
  Sign in, choose a unit and an expiry date, submit, and let both requests succeed: the
  form is not back at its defaults, since the unit and the expiry date are the user's.
\<close>

theorem create_keeps_unit_counterexample:
  "(let form = medicineForm
                 (run sample_runtime (mount sample_runtime default_expiry None) create_trace)
    in name form = [] \<and> unit form = lit ''tablets'' \<and> expiry_date form = chosen_expiry
       \<and> form \<noteq> initial_form default_expiry)"
proof -
  have "run sample_runtime (mount sample_runtime default_expiry None) create_trace =
      foldl (step sample_runtime)
        (foldl (step sample_runtime)
           (run sample_runtime (mount sample_runtime default_expiry None) signed_in_trace)
           [MedicineChange ''name'' (lit ''Aspirin''), MedicineChange ''unit'' (lit ''tablets''),
            MedicineChange ''expiry_date'' chosen_expiry])
        [CreateMedicine, Settle 3 (Responded 204 []), Settle 3 (Responded 200 empty_list_body)]"
    unfolding run_def create_trace_def foldl_append[symmetric] by simp
  also have "\<dots> =
      (run sample_runtime (mount sample_runtime default_expiry None) signed_in_trace)
       \<lparr>medicineForm := reset_form filled_form,
        toast := Some (lit ''Medicine added'', Info), timers := 2, medicines := JArr [],
        in_flight := [ProfileRequest (JStr (lit ''t1'')), MedicinesRequest (JStr (lit ''t1'')),
                      AnalyticsRequest (JStr (lit ''t1''))]\<rparr>"
    unfolding form_filled by (simp only: foldl.simps create_issued create_posted create_refetched)
  finally show ?thesis
    by (simp add: Let_def initial_form_def reset_form_def filled_form_def lit_eq_iff)
qed

end
